theory Spec2Isabelle
  imports Main
begin

section \<open>Values shared by the envelope, the stream loader and the manager\<close>

text \<open>
  A \<open>Buffer\<close> is a sequence of bytes; a \<open>char\<close> of HOL is one byte.
\<close>

type_synonym buffer = "char list"

text \<open>
  The \<open>err: any\<close> value that a backend callback or a \<open>catch\<close> clause delivers. It is an
  object (hence truthy) whenever it is not null; the code reads its \<open>statusCode\<close> and
  \<open>message\<close> properties, either of which may be undefined (\<open>None\<close>). Numbers are
  modelled as exact integers.
\<close>

record error_obj =
  statusCode :: "int option"
  message :: "string option"

text \<open>An exception raised by the runtime or by \<open>zlib.gunzipSync\<close>.\<close>

datatype exn = TypeError | ZlibError

text \<open>
  The result codes \<open>Storage.EPending\<close>, \<open>Storage.ENotFound\<close>, \<open>Storage.EFail\<close> and
  \<open>Storage.ESuccess\<close> are distinct constants of the storage library.
\<close>

datatype result_code = EPending | ENotFound | EFail | ESuccess

text \<open>
  The \<open>data: any\<close> object of a backend response. A listing entry carries the five
  properties that \<open>_dataToProps\<close> reads; the response object itself may carry them too,
  besides the body, the content range, the listing and the continuation token. A property
  that is undefined is \<open>None\<close>.
\<close>

record s3_entry =
  Size :: "int option"
  Key :: "string option"
  ETag :: "string option"
  LastModified :: "string option"
  ContentEncoding :: "string option"

record s3_data = s3_entry +
  Body :: "buffer option"
  ContentRange :: "string option"
  Contents :: "s3_entry list option"
  NextContinuationToken :: "string option"

text \<open>\<open>Storage.BlobProperties\<close>, as \<open>_dataToProps\<close> fills it.\<close>

record blob_properties =
  propContentLength :: int
  propKey :: "string option"
  propETag :: "string option"
  propLastModified :: "string option"
  propContentEncoding :: "string option"

text \<open>
  The slots of \<open>Storage.StorageBlob\<close> that this module reads or sets: the key \<open>id\<close>, the
  bucket name, the parameters behind \<open>param(name)\<close>, the load-stream slot behind
  \<open>asLoadStream()\<close>/\<open>setLoadStream()\<close>, the content accessors \<open>asStream()\<close>,
  \<open>asFile()\<close>, \<open>asBuffer()\<close>, \<open>asString()\<close>, and the trace of lifecycle calls made on
  the blob.
\<close>

datatype stream_handle = ExposedStream | BlobReadStream | FileReadStream string

datatype lifecycle_call =
    SetLoading | SetLoaded result_code | EndLoad
  | EndHead
  | SetSaving | SetSaved result_code | EndSave
  | SetDeleting | EndDelete
  | SetListing | SetListed | EndList

record blob =
  blobId :: string
  bucketName :: string
  param :: "string \<rightharpoonup> string"
  asLoadStream :: "stream_handle option"
  asStream :: "stream_handle option"
  asFile :: "string option"
  asBuffer :: "buffer option"
  asStringB :: "string option"
  lifecycle :: "lifecycle_call list"

section \<open>The request/result envelope: class S3Request\<close>

datatype req_handle = AwsRequest | StreamLoaderFsm

record s3request =
  blob :: blob
  req :: "req_handle option"
  res :: "unit option"
  data :: "s3_data option"
  err :: "error_obj option"

definition S3Request_new :: "blob \<Rightarrow> s3request" where
  "S3Request_new b = \<lparr>blob = b, req = None, res = None, data = None, err = None\<rparr>"

text \<open>
  \<open>result()\<close>. The test \<open>this.err.statusCode && this.err.statusCode == 404\<close> holds for a
  defined, non-zero status code equal to 404.
\<close>

definition result :: "s3request \<Rightarrow> result_code" where
  "result rq =
     (if data rq = None \<and> asLoadStream (blob rq) = None \<and> err rq = None then EPending
      else (case err rq of
              Some e \<Rightarrow>
                (case statusCode e of
                   Some c \<Rightarrow> if c \<noteq> 0 \<and> c = 404 then ENotFound else EFail
                 | None \<Rightarrow> EFail)
            | None \<Rightarrow> ESuccess))"

text \<open>
  The body views. \<open>zlib.gunzipSync\<close> (which throws on input that is not a gzip stream) and
  \<open>Buffer.toString('utf-8')\<close> belong to the runtime and are parameters.
\<close>

definition isGzip :: "string option \<Rightarrow> bool" where
  "isGzip ce = (case ce of Some s \<Rightarrow> s \<noteq> [] \<and> s = ''gzip'' | None \<Rightarrow> False)"

definition viewBody :: "s3request \<Rightarrow> (s3_data \<times> buffer) option" where
  "viewBody rq =
     (if err rq \<noteq> None \<or> res rq = None then None
      else (case data rq of
              None \<Rightarrow> None
            | Some d \<Rightarrow> (case Body d of None \<Rightarrow> None | Some b \<Rightarrow> Some (d, b))))"

definition asString ::
  "(buffer \<Rightarrow> exn + buffer) \<Rightarrow> (buffer \<Rightarrow> string) \<Rightarrow> s3request \<Rightarrow> exn + string option" where
  "asString gunzipSync toUtf8 rq =
     (case viewBody rq of
        None \<Rightarrow> Inr None
      | Some (d, b) \<Rightarrow>
          if isGzip (ContentEncoding d)
          then (case gunzipSync b of Inl x \<Rightarrow> Inl x | Inr body \<Rightarrow> Inr (Some (toUtf8 body)))
          else Inr (Some (toUtf8 b)))"

definition asUncompressedBuffer ::
  "(buffer \<Rightarrow> exn + buffer) \<Rightarrow> s3request \<Rightarrow> exn + buffer option" where
  "asUncompressedBuffer gunzipSync rq =
     (case viewBody rq of
        None \<Rightarrow> Inr None
      | Some (d, b) \<Rightarrow>
          if isGzip (ContentEncoding d)
          then (case gunzipSync b of Inl x \<Rightarrow> Inl x | Inr body \<Rightarrow> Inr (Some body))
          else Inr (Some b))"

definition asBufferRq :: "s3request \<Rightarrow> exn + buffer option" where
  "asBufferRq rq = (case viewBody rq of None \<Rightarrow> Inr None | Some (d, b) \<Rightarrow> Inr (Some b))"

definition entryKey :: "s3_entry \<Rightarrow> string" where
  "entryKey e = (case Key e of Some k \<Rightarrow> if k \<noteq> [] then k else [] | None \<Rightarrow> [])"

definition asArray :: "s3request \<Rightarrow> exn + string list" where
  "asArray rq =
     (case data rq of
        None \<Rightarrow> Inr []
      | Some d \<Rightarrow> (case Contents d of None \<Rightarrow> Inr [] | Some cs \<Rightarrow> Inr (map entryKey cs)))"

text \<open>
  \<open>_dataToProps(data)\<close> reads five properties of its argument; on a null or undefined
  argument the first read raises a TypeError.
\<close>

definition dataToProps :: "'a s3_entry_scheme \<Rightarrow> blob_properties" where
  "dataToProps d =
     \<lparr>propContentLength = (case Size d of Some n \<Rightarrow> n | None \<Rightarrow> 0),
      propKey = Key d, propETag = ETag d, propLastModified = LastModified d,
      propContentEncoding = ContentEncoding d\<rparr>"

definition dataToPropsAny :: "'a s3_entry_scheme option \<Rightarrow> exn + blob_properties" where
  "dataToPropsAny x = (case x of None \<Rightarrow> Inl TypeError | Some d \<Rightarrow> Inr (dataToProps d))"

definition asProps :: "s3request \<Rightarrow> exn + blob_properties list" where
  "asProps rq =
     (case (case data rq of None \<Rightarrow> None | Some d \<Rightarrow> Contents d) of
        Some cs \<Rightarrow> Inr (map dataToProps cs)
      | None \<Rightarrow>
          (case dataToPropsAny (data rq) of Inl x \<Rightarrow> Inl x | Inr p \<Rightarrow> Inr [p]))"

text \<open>
  The completion callbacks of the operations populate the envelope in one way:
  \<open>if (err) rq.err = err; else rq.data = data; rq.res = this\<close>.
\<close>

definition complete :: "s3request \<Rightarrow> error_obj option \<Rightarrow> s3_data option \<Rightarrow> s3request" where
  "complete rq e d =
     (case e of Some x \<Rightarrow> rq\<lparr>err := Some x, res := Some ()\<rparr>
              | None \<Rightarrow> rq\<lparr>data := d, res := Some ()\<rparr>)"

section \<open>Numbers and strings of the runtime\<close>

text \<open>
  Template strings render a number in decimal; \<open>Number(s)\<close> reads a string of decimal
  digits. Numbers are exact integers here (the runtime is exact below \<open>2^53\<close>).
\<close>

definition digitChar :: "nat \<Rightarrow> char" where
  "digitChar d = char_of (48 + d)"

fun show_nat :: "nat \<Rightarrow> string" where
  "show_nat n = (if n < 10 then [digitChar n] else show_nat (n div 10) @ [digitChar (n mod 10)])"

declare show_nat.simps [simp del]

definition show_int :: "int \<Rightarrow> string" where
  "show_int i = (if i < 0 then CHR ''-'' # show_nat (nat (- i)) else show_nat (nat i))"

definition is_digit :: "char \<Rightarrow> bool" where
  "is_digit c = (48 \<le> (of_char c :: nat) \<and> (of_char c :: nat) \<le> 57)"

definition digitVal :: "char \<Rightarrow> int" where
  "digitVal c = int (of_char c) - 48"

definition Number :: "string \<Rightarrow> int" where
  "Number ds = foldl (\<lambda>n c. 10 * n + digitVal c) 0 ds"

text \<open>
  The regular expression \<open>/bytes (\d+)-(\d+)\/(\d+)/\<close>. \<open>match_here\<close> matches it at the
  start of a string: each \<open>\d+\<close> is greedy, and as the character that must follow a
  group is not a digit, the longest run of digits is the only candidate. \<open>re_exec\<close> is
  \<open>re.exec(s)\<close>: the leftmost position at which the expression matches, with the three
  captures, or \<open>None\<close> for \<open>null\<close>.
\<close>

definition digits1 :: "string \<Rightarrow> (string \<times> string) option" where
  "digits1 s = (let d = takeWhile is_digit s in
                  if d = [] then None else Some (d, dropWhile is_digit s))"

definition literal :: "string \<Rightarrow> string \<Rightarrow> string option" where
  "literal p s = (if take (length p) s = p then Some (drop (length p) s) else None)"

definition match_here :: "string \<Rightarrow> (string \<times> string \<times> string) option" where
  "match_here s =
     (case literal ''bytes '' s of None \<Rightarrow> None | Some s1 \<Rightarrow>
      (case digits1 s1 of None \<Rightarrow> None | Some (m1, s2) \<Rightarrow>
       (case literal ''-'' s2 of None \<Rightarrow> None | Some s3 \<Rightarrow>
        (case digits1 s3 of None \<Rightarrow> None | Some (m2, s4) \<Rightarrow>
         (case literal ''/'' s4 of None \<Rightarrow> None | Some s5 \<Rightarrow>
          (case digits1 s5 of None \<Rightarrow> None | Some (m3, s6) \<Rightarrow> Some (m1, m2, m3)))))))"

fun re_exec :: "string \<Rightarrow> (string \<times> string \<times> string) option" where
  "re_exec [] = match_here []"
| "re_exec (c # cs) =
     (case match_here (c # cs) of Some m \<Rightarrow> Some m | None \<Rightarrow> re_exec cs)"

declare re_exec.simps [simp del]

section \<open>Bucket resolution: StorageManager.lookupBucket\<close>

text \<open>
  \<open>bucketMap\<close> is an object with string keys and string values, given by the list of
  its own entries (properties inherited from the prototype are left out); a key whose
  lookup yields \<open>undefined\<close> is absent. The loop need not end, so the function is
  partial: \<open>None\<close> stands for a call that never returns.
\<close>

partial_function (option) lookupBucket :: "(string \<times> string) list \<Rightarrow> string \<Rightarrow> string option" where
  "lookupBucket bucketMap s =
     (case map_of bucketMap s of None \<Rightarrow> Some s | Some t \<Rightarrow> lookupBucket bucketMap t)"

definition blobBucket :: "(string \<times> string) list \<Rightarrow> blob \<Rightarrow> string option" where
  "blobBucket bucketMap b = lookupBucket bucketMap (bucketName b)"

section \<open>The chunked stream loader: class FsmStreamLoader\<close>

text \<open>
  The base class \<open>FSM.Fsm\<close> belongs to a library. What the loader uses of it: the machine
  starts in \<open>FSM_STARTING\<close> with a tick scheduled; \<open>setState\<close> stores the state and
  schedules a tick; \<open>ready\<close> holds unless the machine is done (\<open>FSM_DONE\<close> or
  \<open>FSM_ERROR\<close>; the loader waits on no other machine). The field \<open>transitions\<close> records
  the calls of \<open>setState\<close>, \<open>requests\<close> the parameter object of each \<open>getObject\<close> call,
  \<open>outstanding\<close> whether a call awaits its callback.
\<close>

datatype fsm_state = FSM_STARTING | FSM_DONE | FSM_ERROR

text \<open>
  \<open>Storage.MultiBufferPassThrough\<close>: the buffers written to it, and whether \<open>_done()\<close>
  has signalled the end of its input.
\<close>

record mbpt =
  written :: "buffer list"
  ended :: bool

definition mbpt_new :: mbpt where
  "mbpt_new = \<lparr>written = [], ended = False\<rparr>"

definition mbpt_write :: "mbpt \<Rightarrow> buffer \<Rightarrow> mbpt" where
  "mbpt_write s b = s\<lparr>written := written s @ [b]\<rparr>"

definition mbpt_done :: "mbpt \<Rightarrow> mbpt" where
  "mbpt_done s = s\<lparr>ended := True\<rparr>"

text \<open>
  A connection from the write-side stream to the exposed stream:
  \<open>readStream.pipe(passThrough)\<close> or \<open>readStream.pipe(unzip).pipe(passThrough)\<close>.
\<close>

datatype pipe = Direct | ViaGunzip

record get_params =
  Bucket :: string
  KeyP :: string
  Range :: "string option"

text \<open>The backend calls back with an error or with a response object.\<close>

datatype chunk_response = ChunkError error_obj | ChunkData s3_data

record loader =
  state :: fsm_state
  tickQueued :: bool
  transitions :: "fsm_state list"
  lparam :: get_params
  lerr :: "error_obj option"
  contentLength :: "int option"
  contentPos :: int
  readStream :: mbpt
  passThrough :: mbpt
  pipes :: "pipe list"
  outstanding :: bool
  requests :: "get_params list"

definition ChunkSize :: int where
  "ChunkSize = 4000000"

definition setState :: "loader \<Rightarrow> fsm_state \<Rightarrow> loader" where
  "setState l s = l\<lparr>state := s, transitions := transitions l @ [s], tickQueued := True\<rparr>"

definition ready :: "loader \<Rightarrow> bool" where
  "ready l = (state l \<noteq> FSM_DONE \<and> state l \<noteq> FSM_ERROR)"

definition FsmStreamLoader_new :: "(string \<times> string) list \<Rightarrow> blob \<Rightarrow> (loader \<times> blob) option" where
  "FsmStreamLoader_new bucketMap b =
     (case blobBucket bucketMap b of
        None \<Rightarrow> None
      | Some bucket \<Rightarrow>
          Some (\<lparr>state = FSM_STARTING, tickQueued = True, transitions = [],
                 lparam = \<lparr>Bucket = bucket, KeyP = blobId b, Range = None\<rparr>,
                 lerr = None, contentLength = None, contentPos = 0,
                 readStream = mbpt_new, passThrough = mbpt_new, pipes = [],
                 outstanding = False, requests = []\<rparr>,
                b\<lparr>asLoadStream := Some ExposedStream\<rparr>))"

text \<open>The header value \<open>bytes=<first>-<last>\<close>.\<close>

definition rangeHeader :: "int \<Rightarrow> int \<Rightarrow> string" where
  "rangeHeader lo hi = ''bytes='' @ show_int lo @ ''-'' @ show_int hi"

definition nextRange :: "loader \<Rightarrow> string" where
  "nextRange l =
     (case contentLength l of
        None \<Rightarrow> rangeHeader 0 (ChunkSize - 1)
      | Some n \<Rightarrow> rangeHeader (contentPos l) (min (contentPos l + ChunkSize - 1) (n - 1)))"

text \<open>\<open>tick()\<close> up to the call of \<open>getObject\<close>; the callback is \<open>getObject_callback\<close>.\<close>

definition tick :: "loader \<Rightarrow> loader" where
  "tick l =
     (if ready l then
        (let l1 = l\<lparr>lparam := (lparam l)\<lparr>Range := Some (nextRange l)\<rparr>\<rparr> in
           (case state l1 of
              FSM_STARTING \<Rightarrow> l1\<lparr>requests := requests l1 @ [lparam l1], outstanding := True\<rparr>
            | _ \<Rightarrow> l1))
      else l)"

definition connectPipe :: "loader \<Rightarrow> s3_data \<Rightarrow> loader" where
  "connectPipe l d =
     (if contentLength l = None then
        (if isGzip (ContentEncoding d) then l\<lparr>pipes := pipes l @ [ViaGunzip]\<rparr>
         else l\<lparr>pipes := pipes l @ [Direct]\<rparr>)
      else l)"

definition writeBody :: "loader \<Rightarrow> s3_data \<Rightarrow> loader" where
  "writeBody l d =
     (case Body d of Some b \<Rightarrow> l\<lparr>readStream := mbpt_write (readStream l) b\<rparr> | None \<Rightarrow> l)"

definition updateRange :: "loader \<Rightarrow> s3_data \<Rightarrow> loader" where
  "updateRange l d =
     (case ContentRange d of
        None \<Rightarrow> l
      | Some s \<Rightarrow>
          if s = [] then l
          else (case re_exec s of
                  None \<Rightarrow> l
                | Some (m1, m2, m3) \<Rightarrow>
                    l\<lparr>contentPos := Number m2 + 1, contentLength := Some (Number m3)\<rparr>))"

definition responseError :: "chunk_response \<Rightarrow> error_obj option" where
  "responseError r = (case r of ChunkError e \<Rightarrow> Some e | ChunkData d \<Rightarrow> None)"

definition getObject_callback :: "loader \<Rightarrow> chunk_response \<Rightarrow> loader" where
  "getObject_callback l r =
     (let l1 = (case r of
                  ChunkError e \<Rightarrow> l
                | ChunkData d \<Rightarrow> updateRange (writeBody (connectPipe l d) d) d)
      in if responseError r \<noteq> None \<or> Some (contentPos l1) = contentLength l1 then
           (let l2 = l1\<lparr>lerr := responseError r, readStream := mbpt_done (readStream l1)\<rparr> in
              if responseError r \<noteq> None
              then setState (l2\<lparr>passThrough := mbpt_done (passThrough l2)\<rparr>) FSM_ERROR
              else l2)
         else setState l1 FSM_STARTING)"

text \<open>
  The handlers that the loader registers on the tail of the pipeline (on the gunzip stage,
  or on the write-side stream when it is piped directly).
\<close>

definition on_end :: "loader \<Rightarrow> loader" where
  "on_end l = setState (l\<lparr>passThrough := mbpt_done (passThrough l)\<rparr>) FSM_DONE"

definition on_error :: "loader \<Rightarrow> loader" where
  "on_error l = setState (l\<lparr>passThrough := mbpt_done (passThrough l)\<rparr>) FSM_ERROR"

text \<open>
  What can happen to a loader: the manager of the machines runs a scheduled tick, the
  backend answers the outstanding call, the pipeline emits \<open>end\<close> or \<open>error\<close> (only once a
  handler is registered, that is once a pipe is connected).
\<close>

datatype event = ManagerTick | Response chunk_response | StreamEnd | StreamError

fun fire :: "loader \<Rightarrow> event \<Rightarrow> loader" where
  "fire l ManagerTick = (if tickQueued l then tick (l\<lparr>tickQueued := False\<rparr>) else l)"
| "fire l (Response r) =
     (if outstanding l then getObject_callback (l\<lparr>outstanding := False\<rparr>) r else l)"
| "fire l StreamEnd = (if pipes l = [] then l else on_end l)"
| "fire l StreamError = (if pipes l = [] then l else on_error l)"

definition run :: "loader \<Rightarrow> event list \<Rightarrow> loader" where
  "run l evs = foldl fire l evs"

section \<open>Predicates on loader states and runs\<close>

text \<open>The successful part of the callback: pipe decision, body, content range.\<close>

definition absorb :: "loader \<Rightarrow> s3_data \<Rightarrow> loader" where
  "absorb l d = updateRange (writeBody (connectPipe l d) d) d"

text \<open>
  A loader is quiet when no call is outstanding and no scheduled tick would issue one.
\<close>

definition quiet :: "loader \<Rightarrow> bool" where
  "quiet l = (\<not> outstanding l \<and> (tickQueued l \<longrightarrow> state l \<noteq> FSM_STARTING))"

text \<open>The bounds of the range that \<open>tick\<close> requests.\<close>

definition firstByte :: "loader \<Rightarrow> int" where
  "firstByte l = (case contentLength l of None \<Rightarrow> 0 | Some n \<Rightarrow> contentPos l)"

definition lastByte :: "loader \<Rightarrow> int" where
  "lastByte l = (case contentLength l of None \<Rightarrow> ChunkSize - 1
                 | Some n \<Rightarrow> min (contentPos l + ChunkSize - 1) (n - 1))"

text \<open>
  A response answers the request of a loader when its content range, if it carries one that
  the loader can read, starts at the first byte requested and is not empty. A sequence of
  events is conforming when every response that is delivered answers the outstanding
  request.
\<close>

definition answers :: "loader \<Rightarrow> chunk_response \<Rightarrow> bool" where
  "answers l r =
     (case r of
        ChunkError e \<Rightarrow> True
      | ChunkData d \<Rightarrow>
          (case ContentRange d of
             None \<Rightarrow> True
           | Some s \<Rightarrow>
               (case re_exec s of
                  None \<Rightarrow> True
                | Some (m1, m2, m3) \<Rightarrow> Number m1 = firstByte l \<and> Number m1 \<le> Number m2)))"

definition answered :: "loader \<Rightarrow> event \<Rightarrow> bool" where
  "answered l ev = (case ev of Response r \<Rightarrow> outstanding l \<longrightarrow> answers l r | _ \<Rightarrow> True)"

fun conforming :: "loader \<Rightarrow> event list \<Rightarrow> bool" where
  "conforming l [] = True"
| "conforming l (ev # evs) = (answered l ev \<and> conforming (fire l ev) evs)"

definition loaderInv :: "loader \<Rightarrow> bool" where
  "loaderInv l =
     ((contentLength l = None \<longrightarrow> contentPos l = 0)
      \<and> (ended (readStream l) \<longleftrightarrow> lerr l \<noteq> None \<or> contentLength l = Some (contentPos l))
      \<and> (outstanding l \<longrightarrow> \<not> ended (readStream l))
      \<and> (tickQueued l \<and> state l = FSM_STARTING \<longrightarrow> \<not> ended (readStream l))
      \<and> (outstanding l \<and> state l = FSM_STARTING \<longrightarrow> \<not> tickQueued l))"

text \<open>
  What the regular expression accepts, stated on the string: somewhere in it stands
  \<open>bytes\<close>, a space, digits, a dash, digits, a slash, digits.
\<close>

definition headerMatch :: "string \<Rightarrow> bool" where
  "headerMatch s =
     (\<exists>pre d1 d2 d3 post.
        s = pre @ ''bytes '' @ d1 @ ''-'' @ d2 @ ''/'' @ d3 @ post
        \<and> d1 \<noteq> [] \<and> d2 \<noteq> [] \<and> d3 \<noteq> []
        \<and> (\<forall>c \<in> set (d1 @ d2 @ d3). is_digit c))"

section \<open>The operations: class StorageManager\<close>

text \<open>
  The manager's counter, bucket map and five in-flight indices, together with what it does
  to its surroundings: the entries it logs (\<open>env.log.error\<close>, \<open>env.log.event\<close>, and the
  \<open>log()\<close> of an \<open>AsyncTimer\<close>), the events it emits to its observers, the calls it
  issues to the backend, the callbacks it hands to \<open>process.nextTick\<close>, and the streams it
  destroys.
\<close>

datatype log_entry = LogError string | LogEvent string | LogTimer string

datatype body = BodyStream stream_handle | BodyBuffer buffer | BodyString string | BodyUndefined

record put_params =
  putBucket :: string
  putKey :: string
  putContentEncoding :: "string option"
  putContentType :: "string option"
  putCacheControl :: "string option"
  putBody :: body

datatype s3_call =
    GetObject string string
  | HeadObject string string
  | PutObject put_params
  | DeleteObject string string
  | ListObjectsV2 string "string option"

record manager =
  bucketMap :: "(string \<times> string) list"
  count :: nat
  loadBlobIndex :: "string \<rightharpoonup> s3request"
  headBlobIndex :: "string \<rightharpoonup> s3request"
  saveBlobIndex :: "string \<rightharpoonup> s3request"
  delBlobIndex :: "string \<rightharpoonup> s3request"
  lsBlobIndex :: "string \<rightharpoonup> s3request"
  logged :: "log_entry list"
  emitted :: "(string \<times> string) list"
  s3calls :: "s3_call list"
  nextTicks :: "string list"
  destroyed :: "stream_handle list"

text \<open>
  What a call leaves behind: nothing (the call was rejected), a backend call awaiting its
  callback, a stream loader with its completion observer, or a callback handed to
  \<open>process.nextTick\<close>; each with the generated id and the envelope.
\<close>

datatype outcome =
    Rejected
  | Issued string s3request
  | Streaming string s3request loader
  | Deferred string s3request

definition logError :: "manager \<Rightarrow> string \<Rightarrow> manager" where
  "logError m s = m\<lparr>logged := logged m @ [LogError s]\<rparr>"

definition logEvent :: "manager \<Rightarrow> string \<Rightarrow> manager" where
  "logEvent m s = m\<lparr>logged := logged m @ [LogEvent s]\<rparr>"

definition logTimer :: "manager \<Rightarrow> string \<Rightarrow> manager" where
  "logTimer m s = m\<lparr>logged := logged m @ [LogTimer s]\<rparr>"

definition emit :: "manager \<Rightarrow> string \<Rightarrow> blob \<Rightarrow> manager" where
  "emit m name b = m\<lparr>emitted := emitted m @ [(name, blobId b)]\<rparr>"

definition opId :: "string \<Rightarrow> string \<Rightarrow> nat \<Rightarrow> string" where
  "opId opname k n = opname @ ''+'' @ k @ ''+'' @ show_nat n"

definition truthy :: "string option \<Rightarrow> string option" where
  "truthy x = (case x of Some s \<Rightarrow> if s = [] then None else Some s | None \<Rightarrow> None)"

definition call :: "blob \<Rightarrow> lifecycle_call \<Rightarrow> blob" where
  "call b c = b\<lparr>lifecycle := lifecycle b @ [c]\<rparr>"

text \<open>
  \<open>load(blob)\<close>. The envelope is entered in the index as the call leaves it (the index
  holds a reference to it).
\<close>

definition load :: "manager \<Rightarrow> blob \<Rightarrow> (manager \<times> blob \<times> outcome) option" where
  "load m b =
     (if blobId b = [] then Some (logError m ''S3: blob load called with empty key'', b, Rejected)
      else
        (let ident = opId ''load'' (blobId b) (count m);
             m1 = logEvent (m\<lparr>count := count m + 1\<rparr>) ''S3: load start''
         in case blobBucket (bucketMap m1) b of
              None \<Rightarrow> None
            | Some bucket \<Rightarrow>
                (let rq = S3Request_new b; b1 = call b SetLoading in
                   if param b1 ''ContentDisposition'' = Some ''stream'' then
                     (case FsmStreamLoader_new (bucketMap m1) b1 of
                        None \<Rightarrow> None
                      | Some (fsm, b2) \<Rightarrow>
                          (let rq1 = rq\<lparr>blob := b2, req := Some StreamLoaderFsm\<rparr> in
                             Some (m1\<lparr>loadBlobIndex := (loadBlobIndex m1)(ident \<mapsto> rq1)\<rparr>,
                                   b2, Streaming ident rq1 fsm)))
                   else
                     (let rq1 = rq\<lparr>blob := b1, req := Some AwsRequest\<rparr> in
                        Some (m1\<lparr>loadBlobIndex := (loadBlobIndex m1)(ident \<mapsto> rq1),
                                  s3calls := s3calls m1 @ [GetObject bucket (blobId b1)]\<rparr>,
                              b1, Issued ident rq1)))))"

text \<open>
  \<open>_finishLoad(blob, id, rq, err, data)\<close>. The envelope refers to the blob, so the
  classification reads the blob as it is at that moment.
\<close>

definition finishLoad ::
  "manager \<Rightarrow> blob \<Rightarrow> string \<Rightarrow> s3request \<Rightarrow> error_obj option \<Rightarrow> s3_data option
     \<Rightarrow> manager \<times> blob \<times> s3request" where
  "finishLoad m b ident rq e d =
     (let rq1 = complete (rq\<lparr>blob := b\<rparr>) e d;
          b1 = call (call b (SetLoaded (result rq1))) EndLoad;
          m1 = emit m ''load'' b1;
          m2 = m1\<lparr>loadBlobIndex := (loadBlobIndex m1)(ident := None)\<rparr>;
          m3 = logEvent m2 ''S3: load end''
      in (m3, b1, rq1\<lparr>blob := b1\<rparr>))"

text \<open>The callback of the single-shot \<open>getObject\<close>, and the observer of the stream loader.\<close>

definition load_callback ::
  "manager \<Rightarrow> blob \<Rightarrow> string \<Rightarrow> s3request \<Rightarrow> error_obj option \<Rightarrow> s3_data option
     \<Rightarrow> manager \<times> blob \<times> s3request" where
  "load_callback m b ident rq e d =
     (case finishLoad m b ident rq e d of (m1, b1, rq1) \<Rightarrow> (logTimer m1 ''S3: load'', b1, rq1))"

definition load_onDone ::
  "manager \<Rightarrow> blob \<Rightarrow> string \<Rightarrow> s3request \<Rightarrow> loader \<Rightarrow> manager \<times> blob \<times> s3request" where
  "load_onDone m b ident rq fsm = load_callback m b ident rq (lerr fsm) None"

definition head :: "manager \<Rightarrow> blob \<Rightarrow> (manager \<times> blob \<times> outcome) option" where
  "head m b =
     (if blobId b = [] then Some (logError m ''S3: blob head called with empty key'', b, Rejected)
      else
        (let ident = opId ''head'' (blobId b) (count m);
             m1 = logEvent (m\<lparr>count := count m + 1\<rparr>) ''S3: head start''
         in case blobBucket (bucketMap m1) b of
              None \<Rightarrow> None
            | Some bucket \<Rightarrow>
                (let b1 = call b SetLoading;
                     rq1 = (S3Request_new b)\<lparr>blob := b1, req := Some AwsRequest\<rparr>
                 in Some (m1\<lparr>headBlobIndex := (headBlobIndex m1)(ident \<mapsto> rq1),
                              s3calls := s3calls m1 @ [HeadObject bucket (blobId b1)]\<rparr>,
                          b1, Issued ident rq1))))"

definition head_callback ::
  "manager \<Rightarrow> blob \<Rightarrow> string \<Rightarrow> s3request \<Rightarrow> error_obj option \<Rightarrow> s3_data option
     \<Rightarrow> manager \<times> blob \<times> s3request" where
  "head_callback m b ident rq e d =
     (let rq1 = complete (rq\<lparr>blob := b\<rparr>) e d;
          b1 = call (call b (SetLoaded (result rq1))) EndHead;
          m1 = emit m ''head'' b1;
          m2 = m1\<lparr>headBlobIndex := (headBlobIndex m1)(ident := None)\<rparr>;
          m3 = logTimer (logEvent m2 ''S3: head end'') ''S3: head''
      in (m3, b1, rq1\<lparr>blob := b1\<rparr>))"

text \<open>
  \<open>save(blob)\<close>. \<open>fs.createReadStream\<close> belongs to the runtime and is a parameter: it
  returns a stream or throws.
\<close>

definition openLocal ::
  "(string \<Rightarrow> error_obj + stream_handle) \<Rightarrow> blob \<Rightarrow> error_obj + stream_handle option" where
  "openLocal createReadStream b =
     (if asStream b = None \<and> param b ''ContentEncoding'' \<noteq> Some ''gzip'' then
        (case truthy (asFile b) of
           Some path \<Rightarrow>
             (case createReadStream path of Inl e \<Rightarrow> Inl e | Inr s \<Rightarrow> Inr (Some s))
         | None \<Rightarrow> Inr None)
      else Inr (asStream b))"

definition saveBody :: "stream_handle option \<Rightarrow> blob \<Rightarrow> body" where
  "saveBody blobStream b =
     (case blobStream of
        Some s \<Rightarrow> BodyStream s
      | None \<Rightarrow>
          (case asBuffer b of
             Some buf \<Rightarrow> BodyBuffer buf
           | None \<Rightarrow> (case asStringB b of Some str \<Rightarrow> BodyString str | None \<Rightarrow> BodyUndefined)))"

definition save ::
  "(string \<Rightarrow> error_obj + stream_handle) \<Rightarrow> manager \<Rightarrow> blob
     \<Rightarrow> (manager \<times> blob \<times> outcome) option" where
  "save createReadStream m b =
     (if blobId b = [] then Some (logError m ''S3: blob save called with empty key'', b, Rejected)
      else
        (let ident = opId ''save'' (blobId b) (count m);
             m1 = logEvent (m\<lparr>count := count m + 1\<rparr>) ''S3: save start''
         in case blobBucket (bucketMap m1) b of
              None \<Rightarrow> None
            | Some bucket \<Rightarrow>
                (let params = \<lparr>putBucket = bucket, putKey = blobId b,
                               putContentEncoding = truthy (param b ''ContentEncoding''),
                               putContentType = truthy (param b ''ContentType''),
                               putCacheControl = truthy (param b ''CacheControl''),
                               putBody = BodyUndefined\<rparr>;
                     b1 = call b SetSaving;
                     rq = (S3Request_new b)\<lparr>blob := b1\<rparr>
                 in case openLocal createReadStream b1 of
                      Inl e \<Rightarrow>
                        (let rq1 = rq\<lparr>err := Some e\<rparr> in
                           Some (m1\<lparr>saveBlobIndex := (saveBlobIndex m1)(ident \<mapsto> rq1),
                                     nextTicks := nextTicks m1 @ [ident]\<rparr>,
                                 b1, Deferred ident rq1))
                    | Inr blobStream \<Rightarrow>
                        (let rq1 = rq\<lparr>req := Some AwsRequest\<rparr> in
                           Some (m1\<lparr>saveBlobIndex := (saveBlobIndex m1)(ident \<mapsto> rq1),
                                     s3calls := s3calls m1 @
                                       [PutObject (params\<lparr>putBody := saveBody blobStream b1\<rparr>)]\<rparr>,
                                 b1, Issued ident rq1)))))"

text \<open>The callback handed to \<open>process.nextTick\<close> when the local file cannot be opened.\<close>

definition save_nextTick ::
  "manager \<Rightarrow> blob \<Rightarrow> string \<Rightarrow> s3request \<Rightarrow> manager \<times> blob \<times> s3request" where
  "save_nextTick m b ident rq =
     (let rq1 = rq\<lparr>blob := b\<rparr>;
          b1 = call (call b (SetSaved (result rq1))) EndSave;
          m1 = emit m ''save'' b1;
          m2 = m1\<lparr>saveBlobIndex := (saveBlobIndex m1)(ident := None),
                  nextTicks := remove1 ident (nextTicks m1)\<rparr>;
          m3 = logTimer (logError m2 ''S3: failed to open blob path file'') ''S3: save''
      in (m3, b1, rq1\<lparr>blob := b1\<rparr>))"

text \<open>The callback of \<open>putObject\<close>; \<open>blobStream\<close> is the stream that \<open>save\<close> passed as body.\<close>

definition putObject_callback ::
  "manager \<Rightarrow> blob \<Rightarrow> string \<Rightarrow> s3request \<Rightarrow> stream_handle option
     \<Rightarrow> error_obj option \<Rightarrow> s3_data option \<Rightarrow> manager \<times> blob \<times> s3request" where
  "putObject_callback m b ident rq blobStream e d =
     (let rq1 = complete (rq\<lparr>blob := b\<rparr>) e d;
          b1 = call (call b (SetSaved (result rq1))) EndSave;
          m1 = emit m ''save'' b1;
          m2 = m1\<lparr>saveBlobIndex := (saveBlobIndex m1)(ident := None)\<rparr>;
          m3 = logTimer (logEvent m2 ''S3: save done'') ''S3: save'';
          m4 = (case blobStream of Some s \<Rightarrow> m3\<lparr>destroyed := destroyed m3 @ [s]\<rparr> | None \<Rightarrow> m3)
      in (m4, b1, rq1\<lparr>blob := b1\<rparr>))"

definition del :: "manager \<Rightarrow> blob \<Rightarrow> (manager \<times> blob \<times> outcome) option" where
  "del m b =
     (if blobId b = [] then
        Some (logError m ''S3: blob delete called with empty key'', b, Rejected)
      else
        (let ident = opId ''delete'' (blobId b) (count m);
             m1 = logEvent (m\<lparr>count := count m + 1\<rparr>) ''S3: del start''
         in case blobBucket (bucketMap m1) b of
              None \<Rightarrow> None
            | Some bucket \<Rightarrow>
                (let b1 = call b SetDeleting;
                     rq1 = (S3Request_new b)\<lparr>blob := b1, req := Some AwsRequest\<rparr>
                 in Some (m1\<lparr>delBlobIndex := (delBlobIndex m1)(ident \<mapsto> rq1),
                              s3calls := s3calls m1 @ [DeleteObject bucket (blobId b1)]\<rparr>,
                          b1, Issued ident rq1))))"

definition deleteObject_callback ::
  "manager \<Rightarrow> blob \<Rightarrow> string \<Rightarrow> s3request \<Rightarrow> error_obj option \<Rightarrow> s3_data option
     \<Rightarrow> manager \<times> blob \<times> s3request" where
  "deleteObject_callback m b ident rq e d =
     (let rq1 = complete (rq\<lparr>blob := b\<rparr>) e d;
          b1 = call b EndDelete;
          m1 = emit m ''del'' b1;
          m2 = m1\<lparr>delBlobIndex := (delBlobIndex m1)(ident := None)\<rparr>;
          m3 = logEvent (logTimer m2 ''S3: del'') ''S3: del done''
      in (m3, b1, rq1\<lparr>blob := b1\<rparr>))"

definition ls :: "manager \<Rightarrow> blob \<Rightarrow> string option \<Rightarrow> (manager \<times> blob \<times> outcome) option" where
  "ls m b continuationToken =
     (case blobBucket (bucketMap m) b of
        None \<Rightarrow> None
      | Some bucket \<Rightarrow>
          if bucket = [] then
            Some (logError m ''S3: blob ls called with empty bucket'', b, Rejected)
          else
            (let ident = opId ''ls'' bucket (count m);
                 m1 = logEvent (m\<lparr>count := count m + 1\<rparr>) ''S3: ls start'';
                 b1 = call b SetListing;
                 rq1 = (S3Request_new b)\<lparr>blob := b1, req := Some AwsRequest\<rparr>
             in Some (m1\<lparr>lsBlobIndex := (lsBlobIndex m1)(ident \<mapsto> rq1),
                          s3calls := s3calls m1 @ [ListObjectsV2 bucket (truthy continuationToken)]\<rparr>,
                      b1, Issued ident rq1)))"

definition listObjectsV2_callback ::
  "manager \<Rightarrow> blob \<Rightarrow> string \<Rightarrow> s3request \<Rightarrow> error_obj option \<Rightarrow> s3_data option
     \<Rightarrow> manager \<times> blob \<times> s3request" where
  "listObjectsV2_callback m b ident rq e d =
     (let rq1 = complete (rq\<lparr>blob := b\<rparr>) e d;
          b1 = call (call b SetListed) EndList;
          m1 = emit m ''ls'' b1;
          m2 = m1\<lparr>lsBlobIndex := (lsBlobIndex m1)(ident := None)\<rparr>;
          m3 = logEvent (logTimer m2 ''S3: ls'') ''S3: ls done''
      in (m3, b1, rq1\<lparr>blob := b1\<rparr>))"

section \<open>Chains of the bucket map\<close>

text \<open>
  The chain of a name follows the entries of the bucket map. It is acyclic when no name
  that the chain reaches leads back to itself.
\<close>

definition edges :: "(string \<rightharpoonup> string) \<Rightarrow> (string \<times> string) set" where
  "edges bm = {(a, b). bm a = Some b}"

definition acyclicFrom :: "(string \<rightharpoonup> string) \<Rightarrow> string \<Rightarrow> bool" where
  "acyclicFrom bm s = (\<forall>t. (s, t) \<in> (edges bm)\<^sup>* \<longrightarrow> (t, t) \<notin> (edges bm)\<^sup>+)"

section \<open>Concrete inputs\<close>

definition demoBlob :: blob where
  "demoBlob = \<lparr>blobId = ''report.csv'', bucketName = ''data'', param = Map.empty,
     asLoadStream = None, asStream = None, asFile = None, asBuffer = None, asStringB = None,
     lifecycle = []\<rparr>"

definition notFound :: error_obj where
  "notFound = \<lparr>statusCode = Some 404, message = Some ''NoSuchKey''\<rparr>"

definition manager0 :: manager where
  "manager0 = \<lparr>bucketMap = [(''data'', ''prod''), (''prod'', ''prod-v2''), (''scratch'', [])],
     count = 0, loadBlobIndex = Map.empty, headBlobIndex = Map.empty,
     saveBlobIndex = Map.empty, delBlobIndex = Map.empty, lsBlobIndex = Map.empty,
     logged = [], emitted = [], s3calls = [], nextTicks = [], destroyed = []\<rparr>"

text \<open>A blob with an empty key, and a blob whose bucket resolves to the empty name.\<close>

definition noKeyBlob :: blob where
  "noKeyBlob = demoBlob\<lparr>blobId := []\<rparr>"

definition scratchBlob :: blob where
  "scratchBlob = demoBlob\<lparr>bucketName := ''scratch''\<rparr>"

text \<open>
  A blob to be saved with gzip content encoding that has no stream, no local file, no
  buffer and no string; an \<open>fs.createReadStream\<close> that throws on every path; and the
  state that \<open>save\<close> leaves.
\<close>

definition gzBlob :: blob where
  "gzBlob = \<lparr>blobId = ''big.bin'', bucketName = ''data'',
     param = [''ContentEncoding'' \<mapsto> ''gzip''],
     asLoadStream = None, asStream = None, asFile = None, asBuffer = None, asStringB = None,
     lifecycle = []\<rparr>"

definition failingOpen :: "string \<Rightarrow> error_obj + stream_handle" where
  "failingOpen path = Inl \<lparr>statusCode = None, message = Some ''ENOENT''\<rparr>"

definition gzBlob1 :: blob where
  "gzBlob1 = gzBlob\<lparr>lifecycle := [SetSaving]\<rparr>"

definition gzRequest1 :: s3request where
  "gzRequest1 = \<lparr>blob = gzBlob1, req = Some AwsRequest, res = None, data = None, err = None\<rparr>"

definition gzPut :: put_params where
  "gzPut = \<lparr>putBucket = ''prod-v2'', putKey = ''big.bin'', putContentEncoding = Some ''gzip'',
     putContentType = None, putCacheControl = None, putBody = BodyUndefined\<rparr>"

definition gzManager1 :: manager where
  "gzManager1 = manager0\<lparr>count := 1, saveBlobIndex := [''save+big.bin+0'' \<mapsto> gzRequest1],
     logged := [LogEvent ''S3: save start''], s3calls := [PutObject gzPut]\<rparr>"

definition putOk :: s3_data where
  "putOk = \<lparr>Size = None, Key = None, ETag = Some ''5d41402a'', LastModified = None,
     ContentEncoding = None, Body = None, ContentRange = None, Contents = None,
     NextContinuationToken = None\<rparr>"

text \<open>
  The loader that \<open>new FsmStreamLoader\<close> builds for \<open>demoBlob\<close>, responses of the backend,
  and a backend error.
\<close>

definition loader0 :: loader where
  "loader0 = \<lparr>state = FSM_STARTING, tickQueued = True, transitions = [],
     lparam = \<lparr>Bucket = ''prod-v2'', KeyP = ''report.csv'', Range = None\<rparr>,
     lerr = None, contentLength = None, contentPos = 0,
     readStream = mbpt_new, passThrough = mbpt_new, pipes = [],
     outstanding = False, requests = []\<rparr>"

definition chunkData :: "string option \<Rightarrow> string option \<Rightarrow> buffer option \<Rightarrow> s3_data" where
  "chunkData cr ce body = \<lparr>Size = None, Key = None, ETag = None, LastModified = None,
     ContentEncoding = ce, Body = body, ContentRange = cr, Contents = None,
     NextContinuationToken = None\<rparr>"

definition chunkA :: s3_data where
  "chunkA = chunkData (Some ''bytes 0-3999999/9000000'') None (Some ''first'')"

definition chunkB :: s3_data where
  "chunkB = chunkData (Some ''bytes 4000000-7999999/9000000'') None (Some ''second'')"

definition chunkBack :: s3_data where
  "chunkBack = chunkData (Some ''bytes 0-99/9000000'') None (Some ''again'')"

definition plainNoRange :: s3_data where
  "plainNoRange = chunkData None None (Some ''first'')"

definition gzipNoRange :: s3_data where
  "gzipNoRange = chunkData None (Some ''gzip'') (Some ''second'')"

definition chunkAGzip :: s3_data where
  "chunkAGzip = chunkData (Some ''bytes 0-3999999/9000000'') (Some ''gzip'') (Some ''first'')"

definition slowDown :: error_obj where
  "slowDown = \<lparr>statusCode = Some 503, message = Some ''SlowDown''\<rparr>"

text \<open>
  A head response (properties, no body), a listing response (entries, no body), and the
  envelopes that their completion callbacks leave.
\<close>

definition headData :: s3_data where
  "headData = \<lparr>Size = None, Key = None, ETag = Some ''5d41402a'',
     LastModified = Some ''2020-01-01'', ContentEncoding = Some ''gzip'', Body = None,
     ContentRange = None, Contents = None, NextContinuationToken = None\<rparr>"

definition listData :: s3_data where
  "listData = \<lparr>Size = None, Key = None, ETag = None, LastModified = None,
     ContentEncoding = None, Body = None, ContentRange = None,
     Contents = Some [\<lparr>Size = Some 12, Key = Some ''a.txt'', ETag = Some ''e1'',
                         LastModified = Some ''2020-01-01'', ContentEncoding = None\<rparr>,
                      \<lparr>Size = None, Key = None, ETag = None, LastModified = None,
                         ContentEncoding = None\<rparr>],
     NextContinuationToken = None\<rparr>"

definition headEnvelope :: s3request where
  "headEnvelope = complete (S3Request_new demoBlob) None (Some headData)"

definition listEnvelope :: s3request where
  "listEnvelope = complete (S3Request_new demoBlob) None (Some listData)"

text \<open>A \<open>gunzipSync\<close> that rejects every input, and a decoder for ASCII text.\<close>

definition rejectingGunzip :: "buffer \<Rightarrow> exn + buffer" where
  "rejectingGunzip b = Inl ZlibError"

definition asciiText :: "buffer \<Rightarrow> string" where
  "asciiText b = b"

definition failedEnvelope :: s3request where
  "failedEnvelope = complete (S3Request_new demoBlob) (Some notFound) None"

section \<open>Decimal digits\<close>

lemma digitChar_eval:
  "digitChar 0 = CHR ''0''" "digitChar 1 = CHR ''1''" "digitChar 2 = CHR ''2''"
  "digitChar 3 = CHR ''3''" "digitChar 4 = CHR ''4''" "digitChar 5 = CHR ''5''"
  "digitChar 6 = CHR ''6''" "digitChar 7 = CHR ''7''" "digitChar 8 = CHR ''8''"
  "digitChar 9 = CHR ''9''"
  by code_simp+

section \<open>Classification of envelopes\<close>

lemma result_cases:
  "result rq = EPending \<longleftrightarrow> (data rq = None \<and> asLoadStream (blob rq) = None \<and> err rq = None)"
  "result rq = ENotFound \<longleftrightarrow> (\<exists>e. err rq = Some e \<and> statusCode e = Some 404)"
  "result rq = EFail \<longleftrightarrow> (\<exists>e. err rq = Some e \<and> statusCode e \<noteq> Some 404)"
  "result rq = ESuccess \<longleftrightarrow> (err rq = None \<and> (data rq \<noteq> None \<or> asLoadStream (blob rq) \<noteq> None))"
  by (auto simp: result_def split: option.splits)

text \<open>
  Claim C1. An envelope that its completion callback has populated with \<open>data\<close> or with
  \<open>err\<close> is classified as exactly one of NOT_FOUND, FAILED and SUCCESS, and the four rows of
  the decision table hold for every envelope: PENDING exactly when there is no data, no
  load stream on the blob and no error; NOT_FOUND exactly when an error with status 404 is
  present; FAILED exactly when any other error is present; SUCCESS otherwise.
\<close>

theorem result_decision_table:
  "(data rq \<noteq> None \<or> err rq \<noteq> None \<longrightarrow>
      result rq \<in> {ENotFound, EFail, ESuccess} \<and> result rq \<noteq> EPending)
   \<and> (result rq = EPending \<longleftrightarrow>
        (data rq = None \<and> asLoadStream (blob rq) = None \<and> err rq = None))
   \<and> (result rq = ENotFound \<longleftrightarrow> (\<exists>e. err rq = Some e \<and> statusCode e = Some 404))
   \<and> (result rq = EFail \<longleftrightarrow> (\<exists>e. err rq = Some e \<and> statusCode e \<noteq> Some 404))
   \<and> (result rq = ESuccess \<longleftrightarrow>
        (err rq = None \<and> \<not> (data rq = None \<and> asLoadStream (blob rq) = None)))"
proof -
  have "result rq \<noteq> EPending" if "data rq \<noteq> None \<or> err rq \<noteq> None"
    using that by (auto simp: result_cases(1))
  moreover have "result rq \<in> {ENotFound, EFail, ESuccess}" if "result rq \<noteq> EPending"
    using that by (cases "result rq") auto
  ultimately show ?thesis
    by (auto simp: result_cases)
qed

theorem result_decision_table_witness:
  "err (complete (S3Request_new demoBlob) (Some notFound) None) \<noteq> None
   \<and> result (complete (S3Request_new demoBlob) (Some notFound) None) = ENotFound
   \<and> result (complete (S3Request_new demoBlob) (Some notFound) None) \<in> {ENotFound, EFail, ESuccess}"
  using result_decision_table [of "complete (S3Request_new demoBlob) (Some notFound) None"]
  by (simp add: complete_def S3Request_new_def notFound_def)

section \<open>The typed views\<close>

text \<open>
  Claim C7, as stated, fails: the key-list view and the property-list view do not look at
  the payload body. On a listing response, which has no body, the key-list view returns
  the keys; on a head response, which has no body, the property-list view returns a
  record.
\<close>

theorem views_without_body:
  "err listEnvelope = None \<and> viewBody listEnvelope = None
   \<and> asArray listEnvelope = Inr [''a.txt'', []]
   \<and> err headEnvelope = None \<and> viewBody headEnvelope = None
   \<and> asProps headEnvelope =
       Inr [\<lparr>propContentLength = 0, propKey = None, propETag = Some ''5d41402a'',
              propLastModified = Some ''2020-01-01'', propContentEncoding = Some ''gzip''\<rparr>]"
  by (simp add: listEnvelope_def headEnvelope_def listData_def headData_def complete_def
      S3Request_new_def viewBody_def asArray_def asProps_def entryKey_def dataToProps_def
      dataToPropsAny_def)

text \<open>
  Claim C7, amended. The three body views (as text, as raw bytes, as decompressed bytes)
  return an absent value, without raising, whenever the envelope is errored, has no
  response object, has no data or has no payload body. The key-list view depends on the
  data alone and never raises: it is empty when the data is absent or is not a listing, and
  else lists the key of each entry (the empty string for an entry without key). The
  property-list view of an envelope with data depends on the data alone and does not raise:
  one record per entry of a listing, or the single record of the payload.
\<close>

theorem typed_views:
  "(err rq \<noteq> None \<or> res rq = None \<or> data rq = None \<or> (\<exists>d. data rq = Some d \<and> Body d = None) \<longrightarrow>
      asString gunzipSync toUtf8 rq = Inr None
    \<and> asUncompressedBuffer gunzipSync rq = Inr None
    \<and> asBufferRq rq = Inr None)
   \<and> (data rq = None \<or> (\<exists>d. data rq = Some d \<and> Contents d = None) \<longrightarrow> asArray rq = Inr [])
   \<and> (data rq = Some d \<and> Contents d = Some cs \<longrightarrow>
        asArray rq = Inr (map entryKey cs) \<and> asProps rq = Inr (map dataToProps cs))
   \<and> (data rq = Some d \<and> Contents d = None \<longrightarrow> asProps rq = Inr [dataToProps d])"
  by (auto simp: asString_def asUncompressedBuffer_def asBufferRq_def viewBody_def asArray_def
      asProps_def dataToPropsAny_def split: option.splits)

theorem typed_views_witness:
  "err failedEnvelope \<noteq> None
   \<and> asString rejectingGunzip asciiText failedEnvelope = Inr None
   \<and> asBufferRq failedEnvelope = Inr None
   \<and> data failedEnvelope = None
   \<and> asArray failedEnvelope = Inr []
   \<and> data listEnvelope = Some listData
   \<and> Contents listData = Some [\<lparr>Size = Some 12, Key = Some ''a.txt'', ETag = Some ''e1'',
                                   LastModified = Some ''2020-01-01'', ContentEncoding = None\<rparr>,
                                \<lparr>Size = None, Key = None, ETag = None, LastModified = None,
                                   ContentEncoding = None\<rparr>]
   \<and> asArray listEnvelope = Inr [''a.txt'', []]
   \<and> data headEnvelope = Some headData \<and> Contents headData = None
   \<and> asProps headEnvelope = Inr [dataToProps headData]"
proof -
  let ?cs = "[\<lparr>Size = Some 12, Key = Some ''a.txt'', ETag = Some ''e1'',
                 LastModified = Some ''2020-01-01'', ContentEncoding = None\<rparr>,
              \<lparr>Size = None, Key = None, ETag = None, LastModified = None,
                 ContentEncoding = None\<rparr>]"
  have f: "err failedEnvelope \<noteq> None" "data failedEnvelope = None"
    by (simp_all add: failedEnvelope_def complete_def S3Request_new_def)
  have l: "data listEnvelope = Some listData" "Contents listData = Some ?cs"
    by (simp_all add: listEnvelope_def listData_def complete_def S3Request_new_def)
  have h: "data headEnvelope = Some headData" "Contents headData = None"
    by (simp_all add: headEnvelope_def headData_def complete_def S3Request_new_def)
  have k: "map entryKey ?cs = [''a.txt'', []]"
    by (simp add: entryKey_def)
  note t1 = typed_views [of failedEnvelope rejectingGunzip asciiText]
  note t2 = typed_views [of listEnvelope _ _ listData ?cs]
  note t3 = typed_views [of headEnvelope _ _ headData]
  have "asString rejectingGunzip asciiText failedEnvelope = Inr None"
    "asBufferRq failedEnvelope = Inr None" "asArray failedEnvelope = Inr []"
    using t1 f by simp_all
  moreover have "asArray listEnvelope = Inr [''a.txt'', []]"
    using t2 l k by simp
  moreover have "asProps headEnvelope = Inr [dataToProps headData]"
    using t3 h by simp
  ultimately show ?thesis
    using f l h by blast
qed

text \<open>
  What the amended claim leaves out: on an envelope without data, such as the one a failed
  call leaves, \<open>asProps()\<close> passes null to \<open>_dataToProps\<close>, whose first property read
  raises a TypeError. The other views guard against absent data.
\<close>

lemma asProps_raises_without_data:
  "asProps (complete (S3Request_new b) (Some e) None) = Inl TypeError"
  by (simp add: asProps_def complete_def S3Request_new_def dataToPropsAny_def)

section \<open>Bucket resolution\<close>

lemma lookupBucket_acyclic:
  fixes bm :: "(string \<times> string) list"
  defines "E \<equiv> edges (map_of bm)"
  shows "acyclicFrom (map_of bm) s \<Longrightarrow>
         \<exists>r. lookupBucket bm s = Some r \<and> map_of bm r = None \<and> (s, r) \<in> E\<^sup>*"
proof (induction "card {t. (s, t) \<in> E\<^sup>* \<and> t \<in> dom (map_of bm)}" arbitrary: s rule: less_induct)
  case less
  show ?case
  proof (cases "map_of bm s")
    case None
    then have "lookupBucket bm s = Some s"
      by (subst lookupBucket.simps) simp
    with None show ?thesis by blast
  next
    case (Some t)
    let ?R = "\<lambda>x. {u. (x, u) \<in> E\<^sup>* \<and> u \<in> dom (map_of bm)}"
    have st: "(s, t) \<in> E" using Some by (simp add: edges_def E_def)
    have sub: "?R t \<subseteq> ?R s"
      using st by (auto intro: converse_rtrancl_into_rtrancl)
    have "(t, s) \<notin> E\<^sup>*"
    proof
      assume "(t, s) \<in> E\<^sup>*"
      with st have "(s, s) \<in> E\<^sup>+" by (rule rtrancl_into_trancl2)
      moreover have "(s, s) \<in> E\<^sup>*" by simp
      ultimately show False using less.prems by (auto simp: acyclicFrom_def E_def)
    qed
    then have "s \<notin> ?R t" by simp
    moreover have "s \<in> ?R s" using Some by auto
    ultimately have "?R t \<subset> ?R s" using sub by blast
    moreover have "finite (?R s)" by (simp add: finite_dom_map_of)
    ultimately have lt: "card (?R t) < card (?R s)" by (rule psubset_card_mono[rotated])
    have "acyclicFrom (map_of bm) t"
      unfolding acyclicFrom_def
    proof (intro allI impI)
      fix u assume "(t, u) \<in> (edges (map_of bm))\<^sup>*"
      with st have "(s, u) \<in> E\<^sup>*" unfolding E_def by (rule converse_rtrancl_into_rtrancl)
      then show "(u, u) \<notin> (edges (map_of bm))\<^sup>+"
        using less.prems by (auto simp: acyclicFrom_def E_def)
    qed
    from less.hyps[OF lt this] obtain r where
      r: "lookupBucket bm t = Some r" "map_of bm r = None" "(t, r) \<in> E\<^sup>*" by blast
    have "lookupBucket bm s = Some r"
      using Some r(1) by (subst lookupBucket.simps) simp
    moreover have "(s, r) \<in> E\<^sup>*"
      using st r(3) by (rule converse_rtrancl_into_rtrancl)
    ultimately show ?thesis using r(2) by blast
  qed
qed

text \<open>
  Claim C10. When the chain of bucket-map entries that starts at a name is acyclic,
  \<open>lookupBucket\<close> returns; the name it returns lies on the chain and is not a key of the
  bucket map.
\<close>

theorem lookupBucket_terminates:
  "acyclicFrom (map_of bm) s \<Longrightarrow>
     \<exists>r. lookupBucket bm s = Some r \<and> r \<notin> fst ` set bm \<and> (s, r) \<in> (edges (map_of bm))\<^sup>*"
  using lookupBucket_acyclic [of bm s] by (auto simp: map_of_eq_None_iff)

lemma manager0_edges:
  "edges (map_of (bucketMap manager0)) =
     {(''data'', ''prod''), (''prod'', ''prod-v2''), (''scratch'', [])}"
  by (auto simp: edges_def manager0_def split: if_splits)

lemma manager0_acyclic: "acyclicFrom (map_of (bucketMap manager0)) s"
proof -
  define rank :: "string \<Rightarrow> nat" where
    "rank = (\<lambda>x. if x = ''data'' \<or> x = ''scratch'' then 0 else if x = ''prod'' then 1 else 2)"
  have "rank x < rank y" if "(x, y) \<in> (edges (map_of (bucketMap manager0)))\<^sup>+" for x y
    using that
    by (induction rule: trancl_induct) (auto simp: manager0_edges rank_def split: if_splits)
  then have "(t, t) \<notin> (edges (map_of (bucketMap manager0)))\<^sup>+" for t
    by (meson less_irrefl)
  then show ?thesis by (simp add: acyclicFrom_def)
qed

theorem lookupBucket_terminates_witness:
  "acyclicFrom (map_of (bucketMap manager0)) ''data''
   \<and> lookupBucket (bucketMap manager0) ''data'' = Some ''prod-v2''
   \<and> (\<exists>r. lookupBucket (bucketMap manager0) ''data'' = Some r
           \<and> r \<notin> fst ` set (bucketMap manager0))"
proof -
  have "lookupBucket (bucketMap manager0) ''data'' = Some ''prod-v2''"
    by (simp add: lookupBucket.simps manager0_def)
  with manager0_acyclic [of "''data''"]
    lookupBucket_terminates [OF manager0_acyclic, of "''data''"]
  show ?thesis by auto
qed

section \<open>Rejected calls\<close>

text \<open>
  Claim C9. A call of \<open>load\<close>, \<open>head\<close>, \<open>save\<close> or \<open>del\<close> on a blob with an empty key, and
  a call of \<open>ls\<close> on a blob whose bucket resolves to the empty name, returns normally; it
  appends one error entry to the log and changes nothing else: no backend call is issued, no
  envelope is created or indexed, no observer is notified, and the blob is untouched.
\<close>

theorem empty_key_rejected:
  "(blobId b = [] \<longrightarrow>
      load m b = Some (m\<lparr>logged := logged m @ [LogError ''S3: blob load called with empty key'']\<rparr>,
                       b, Rejected)
    \<and> head m b = Some (m\<lparr>logged := logged m @ [LogError ''S3: blob head called with empty key'']\<rparr>,
                        b, Rejected)
    \<and> save createReadStream m b =
        Some (m\<lparr>logged := logged m @ [LogError ''S3: blob save called with empty key'']\<rparr>,
              b, Rejected)
    \<and> del m b = Some (m\<lparr>logged := logged m @ [LogError ''S3: blob delete called with empty key'']\<rparr>,
                       b, Rejected))
   \<and> (blobBucket (bucketMap m) b = Some [] \<longrightarrow>
      ls m b tok = Some (m\<lparr>logged := logged m @ [LogError ''S3: blob ls called with empty bucket'']\<rparr>,
                         b, Rejected))"
  by (simp add: load_def head_def save_def del_def ls_def logError_def)

theorem empty_key_rejected_witness:
  "blobId noKeyBlob = []
   \<and> load manager0 noKeyBlob =
       Some (manager0\<lparr>logged := [LogError ''S3: blob load called with empty key'']\<rparr>,
             noKeyBlob, Rejected)
   \<and> del manager0 noKeyBlob =
       Some (manager0\<lparr>logged := [LogError ''S3: blob delete called with empty key'']\<rparr>,
             noKeyBlob, Rejected)
   \<and> blobBucket (bucketMap manager0) scratchBlob = Some []
   \<and> ls manager0 scratchBlob None =
       Some (manager0\<lparr>logged := [LogError ''S3: blob ls called with empty bucket'']\<rparr>,
             scratchBlob, Rejected)"
proof -
  have k: "blobId noKeyBlob = []" by (simp add: noKeyBlob_def demoBlob_def)
  have bk: "blobBucket (bucketMap manager0) scratchBlob = Some []"
    by (simp add: blobBucket_def scratchBlob_def demoBlob_def lookupBucket.simps manager0_def)
  have l0: "logged manager0 = []" by (simp add: manager0_def)
  show ?thesis
    using k bk empty_key_rejected [of noKeyBlob manager0 failingOpen None]
      empty_key_rejected [of scratchBlob manager0 failingOpen None]
    by (simp add: l0)
qed

section \<open>Saving a gzip-encoded blob\<close>

text \<open>
  Claim C8, as stated, fails: for a blob with gzip content encoding and no stream, no local
  file, no buffer and no string, \<open>save\<close> opens no local file even when every open would
  throw; it records no error, defers nothing, and issues \<open>putObject\<close> without a body. When
  the backend answers with data, the envelope is classified SUCCESS.
\<close>

theorem gzip_save_not_failed_locally:
  "save failingOpen manager0 gzBlob = Some (gzManager1, gzBlob1, Issued ''save+big.bin+0'' gzRequest1)
   \<and> err gzRequest1 = None
   \<and> nextTicks gzManager1 = []
   \<and> s3calls gzManager1 = [PutObject gzPut]
   \<and> result (snd (snd (putObject_callback gzManager1 gzBlob1 ''save+big.bin+0'' gzRequest1
                          None None (Some putOk)))) = ESuccess"
  by (simp add: save_def Let_def openLocal_def saveBody_def truthy_def call_def S3Request_new_def
      putObject_callback_def complete_def result_def opId_def show_nat.simps digitChar_eval
      blobBucket_def lookupBucket.simps
      manager0_def gzBlob_def gzBlob1_def gzRequest1_def gzManager1_def gzPut_def
      logEvent_def failingOpen_def)

text \<open>
  Claim C8, amended. For a blob with a non-empty key, gzip content encoding and no stream,
  whose bucket resolves, \<open>save\<close> opens no local file and records no error: it issues one
  \<open>putObject\<close> call whose body is the blob's buffer, else its string, else absent. Whatever
  the backend answers, the callback notifies the save observer exactly once, and the
  envelope is classified from that answer: NOT_FOUND or FAILED for an error, SUCCESS for
  data.
\<close>

theorem gzip_save_classified_by_backend:
  assumes "blobId b \<noteq> []" and "asStream b = None"
    and "param b ''ContentEncoding'' = Some ''gzip''"
    and "blobBucket (bucketMap m) b = Some bucket"
  shows "\<exists>m1 rq1.
       save createReadStream m b =
         Some (m1, call b SetSaving, Issued (opId ''save'' (blobId b) (count m)) rq1)
     \<and> err rq1 = None \<and> data rq1 = None
     \<and> nextTicks m1 = nextTicks m \<and> emitted m1 = emitted m
     \<and> s3calls m1 = s3calls m @ [PutObject \<lparr>putBucket = bucket, putKey = blobId b,
           putContentEncoding = Some ''gzip'', putContentType = truthy (param b ''ContentType''),
           putCacheControl = truthy (param b ''CacheControl''),
           putBody = (case asBuffer b of
                        Some buf \<Rightarrow> BodyBuffer buf
                      | None \<Rightarrow> (case asStringB b of
                                   Some str \<Rightarrow> BodyString str
                                 | None \<Rightarrow> BodyUndefined))\<rparr>]
     \<and> (\<forall>e d. case putObject_callback m1 (call b SetSaving)
                      (opId ''save'' (blobId b) (count m)) rq1 None e d of
           (m2, b2, rq2) \<Rightarrow>
             emitted m2 = emitted m @ [(''save'', blobId b)]
           \<and> nextTicks m2 = nextTicks m
           \<and> result rq2 =
               (case e of
                  Some x \<Rightarrow> if statusCode x = Some 404 then ENotFound else EFail
                | None \<Rightarrow> if d = None \<and> asLoadStream b = None then EPending else ESuccess))"
  using assms
  by (auto simp: save_def Let_def openLocal_def saveBody_def truthy_def call_def S3Request_new_def
      putObject_callback_def complete_def emit_def logEvent_def logTimer_def result_def
      split: option.splits)

theorem gzip_save_classified_by_backend_witness:
  "blobId gzBlob \<noteq> [] \<and> asStream gzBlob = None
   \<and> param gzBlob ''ContentEncoding'' = Some ''gzip''
   \<and> blobBucket (bucketMap manager0) gzBlob = Some ''prod-v2''
   \<and> (\<exists>m1 rq1.
        save failingOpen manager0 gzBlob =
          Some (m1, call gzBlob SetSaving, Issued (opId ''save'' (blobId gzBlob) (count manager0)) rq1)
      \<and> err rq1 = None \<and> emitted m1 = emitted manager0)"
proof -
  have h1: "blobId gzBlob \<noteq> []" and h2: "asStream gzBlob = None"
    and h3: "param gzBlob ''ContentEncoding'' = Some ''gzip''"
    by (simp_all add: gzBlob_def)
  have h4: "blobBucket (bucketMap manager0) gzBlob = Some ''prod-v2''"
    by (simp add: blobBucket_def gzBlob_def lookupBucket.simps manager0_def)
  show ?thesis
    using h1 h2 h3 h4 gzip_save_classified_by_backend [OF h1 h2 h3 h4, of failingOpen]
    by blast
qed

section \<open>Decimal rendering and reading\<close>

lemma digitVal_digitChar: "d < 10 \<Longrightarrow> digitVal (digitChar d) = int d"
  by (simp add: digitVal_def digitChar_def)

lemma is_digit_digitChar: "d < 10 \<Longrightarrow> is_digit (digitChar d)"
  by (simp add: is_digit_def digitChar_def)

lemma Number_snoc: "Number (ds @ [c]) = 10 * Number ds + digitVal c"
  by (simp add: Number_def)

lemma show_nat_digits: "show_nat n \<noteq> [] \<and> (\<forall>c \<in> set (show_nat n). is_digit c)"
proof (induction n rule: show_nat.induct)
  case (1 n)
  show ?case
  proof (cases "n < 10")
    case True
    then show ?thesis by (subst (1 2) show_nat.simps) (simp add: is_digit_digitChar)
  next
    case False
    then show ?thesis
      using "1.IH" by (subst (1 2) show_nat.simps) (auto simp: is_digit_digitChar)
  qed
qed

lemma Number_show_nat: "Number (show_nat n) = int n"
proof (induction n rule: show_nat.induct)
  case (1 n)
  show ?case
  proof (cases "n < 10")
    case True
    then show ?thesis
      by (subst show_nat.simps) (simp add: Number_def digitVal_digitChar)
  next
    case False
    then have "Number (show_nat n)
        = 10 * Number (show_nat (n div 10)) + digitVal (digitChar (n mod 10))"
      by (subst show_nat.simps) (simp add: Number_snoc)
    also have "\<dots> = 10 * int (n div 10) + int (n mod 10)"
      using False "1.IH" by (simp add: digitVal_digitChar)
    also have "\<dots> = int n" by (simp add: zdiv_int zmod_int)
    finally show ?thesis .
  qed
qed

lemma Number_examples:
  "Number ''0'' = 0" "Number ''99'' = 99" "Number ''3999999'' = 3999999"
  "Number ''4000000'' = 4000000" "Number ''7999999'' = 7999999"
  "Number ''8000000'' = 8000000" "Number ''8999999'' = 8999999"
  "Number ''9000000'' = 9000000"
  by (simp_all add: Number_def digitVal_def)

section \<open>The content-range expression\<close>

lemma digits1_run:
  assumes "ds \<noteq> []" and "\<forall>c \<in> set ds. is_digit c" and "rest = [] \<or> \<not> is_digit (hd rest)"
  shows "digits1 (ds @ rest) = Some (ds, rest)"
proof -
  have "takeWhile is_digit (ds @ rest) = ds"
    using assms(2,3) by (cases rest) (auto simp: takeWhile_append2 takeWhile_eq_Nil_iff)
  moreover have "dropWhile is_digit (ds @ rest) = rest"
    using assms(2,3) by (cases rest) (auto simp: dropWhile_append2 dropWhile_eq_self_iff)
  ultimately show ?thesis using assms(1) by (simp add: digits1_def)
qed

lemma literal_prefix: "literal p (p @ s) = Some s"
  by (simp add: literal_def)

lemma not_digit_sep: "\<not> is_digit CHR ''-''" "\<not> is_digit CHR ''/''"
  by (simp_all add: is_digit_def)

lemma match_here_header:
  assumes "d1 \<noteq> []" "\<forall>c \<in> set d1. is_digit c" "d2 \<noteq> []" "\<forall>c \<in> set d2. is_digit c"
    "d3 \<noteq> []" "\<forall>c \<in> set d3. is_digit c" "post = [] \<or> \<not> is_digit (hd post)"
  shows "match_here (''bytes '' @ d1 @ ''-'' @ d2 @ ''/'' @ d3 @ post) = Some (d1, d2, d3)"
proof -
  have a: "digits1 (d1 @ ''-'' @ d2 @ ''/'' @ d3 @ post) = Some (d1, ''-'' @ d2 @ ''/'' @ d3 @ post)"
    using assms(1,2) by (intro digits1_run) (simp_all add: not_digit_sep)
  have b: "digits1 (d2 @ ''/'' @ d3 @ post) = Some (d2, ''/'' @ d3 @ post)"
    using assms(3,4) by (intro digits1_run) (simp_all add: not_digit_sep)
  have c: "digits1 (d3 @ post) = Some (d3, post)"
    using assms(5,6,7) by (intro digits1_run) simp_all
  have l1: "literal ''bytes '' (''bytes '' @ d1 @ ''-'' @ d2 @ ''/'' @ d3 @ post)
            = Some (d1 @ ''-'' @ d2 @ ''/'' @ d3 @ post)"
    by (rule literal_prefix)
  have l2: "literal ''-'' (''-'' @ d2 @ ''/'' @ d3 @ post) = Some (d2 @ ''/'' @ d3 @ post)"
    by (rule literal_prefix)
  have l3: "literal ''/'' (''/'' @ d3 @ post) = Some (d3 @ post)"
    by (rule literal_prefix)
  show ?thesis
    unfolding match_here_def l1 by (simp only: a b c l2 l3 option.case prod.case)
qed

lemma match_here_Nil: "match_here [] = None"
  by (simp add: match_here_def literal_def)

lemma re_exec_Nil: "re_exec [] = None"
  by (simp add: re_exec.simps match_here_Nil)

lemma re_exec_at_start: "match_here s = Some m \<Longrightarrow> re_exec s = Some m"
  by (cases s) (simp_all add: re_exec.simps)

lemma re_exec_header:
  "re_exec (''bytes '' @ show_nat a @ ''-'' @ show_nat b @ ''/'' @ show_nat c)
     = Some (show_nat a, show_nat b, show_nat c)"
  using match_here_header [of "show_nat a" "show_nat b" "show_nat c" "[]"] show_nat_digits
  by (intro re_exec_at_start) simp

lemma re_exec_examples:
  "re_exec ''bytes 0-3999999/9000000'' = Some (''0'', ''3999999'', ''9000000'')"
  "re_exec ''bytes 4000000-7999999/9000000'' = Some (''4000000'', ''7999999'', ''9000000'')"
  "re_exec ''bytes 8000000-8999999/9000000'' = Some (''8000000'', ''8999999'', ''9000000'')"
  "re_exec ''bytes 0-99/9000000'' = Some (''0'', ''99'', ''9000000'')"
  "re_exec ''bytes 0-99'' = None"
  by (simp_all add: re_exec.simps match_here_def literal_def digits1_def is_digit_def Let_def)

section \<open>Steps of the loader\<close>

lemma nextRange_bytes: "nextRange l = rangeHeader (firstByte l) (lastByte l)"
  by (simp add: nextRange_def firstByte_def lastByte_def split: option.splits)

lemma nextRange_tickQueued [simp]: "nextRange (l\<lparr>tickQueued := q\<rparr>) = nextRange l"
  by (simp add: nextRange_def split: option.splits)

lemma run_Nil [simp]: "run l [] = l"
  by (simp add: run_def)

lemma run_Cons [simp]: "run l (ev # evs) = run (fire l ev) evs"
  by (simp add: run_def)

lemma run_append: "run l (xs @ ys) = run (run l xs) ys"
  by (simp add: run_def)

lemma setState_fields [simp]:
  "state (setState l s) = s" "transitions (setState l s) = transitions l @ [s]"
  "tickQueued (setState l s) = True" "lparam (setState l s) = lparam l"
  "lerr (setState l s) = lerr l" "contentLength (setState l s) = contentLength l"
  "contentPos (setState l s) = contentPos l" "readStream (setState l s) = readStream l"
  "passThrough (setState l s) = passThrough l" "pipes (setState l s) = pipes l"
  "outstanding (setState l s) = outstanding l" "requests (setState l s) = requests l"
  by (simp_all add: setState_def)

lemma absorb_fields [simp]:
  "state (absorb l d) = state l" "transitions (absorb l d) = transitions l"
  "tickQueued (absorb l d) = tickQueued l" "lparam (absorb l d) = lparam l"
  "lerr (absorb l d) = lerr l" "passThrough (absorb l d) = passThrough l"
  "outstanding (absorb l d) = outstanding l" "requests (absorb l d) = requests l"
  "ended (readStream (absorb l d)) = ended (readStream l)"
  by (simp_all add: absorb_def updateRange_def writeBody_def connectPipe_def mbpt_write_def
      split: option.splits)

lemma absorb_outstanding [simp]:
  "absorb (l\<lparr>outstanding := x\<rparr>) d = (absorb l d)\<lparr>outstanding := x\<rparr>"
  by (simp add: absorb_def updateRange_def writeBody_def connectPipe_def split: option.splits)

lemma absorb_pipes:
  "pipes (absorb l d) =
     (if contentLength l = None
      then pipes l @ [if isGzip (ContentEncoding d) then ViaGunzip else Direct]
      else pipes l)"
  by (simp add: absorb_def updateRange_def writeBody_def connectPipe_def split: option.splits)

lemma absorb_range:
  "contentPos (absorb l d) =
     (case ContentRange d of None \<Rightarrow> contentPos l
      | Some s \<Rightarrow> (case re_exec s of None \<Rightarrow> contentPos l | Some (m1, m2, m3) \<Rightarrow> Number m2 + 1))"
  "contentLength (absorb l d) =
     (case ContentRange d of None \<Rightarrow> contentLength l
      | Some s \<Rightarrow> (case re_exec s of None \<Rightarrow> contentLength l
                   | Some (m1, m2, m3) \<Rightarrow> Some (Number m3)))"
  by (auto simp: absorb_def updateRange_def writeBody_def connectPipe_def re_exec_Nil
      split: option.splits)

lemma callback_data:
  "getObject_callback l (ChunkData d) =
     (if Some (contentPos (absorb l d)) = contentLength (absorb l d)
      then (absorb l d)\<lparr>lerr := None, readStream := mbpt_done (readStream (absorb l d))\<rparr>
      else setState (absorb l d) FSM_STARTING)"
  by (simp add: getObject_callback_def absorb_def responseError_def Let_def)

lemma callback_error:
  "getObject_callback l (ChunkError e) =
     setState (l\<lparr>lerr := Some e, readStream := mbpt_done (readStream l),
                 passThrough := mbpt_done (passThrough l)\<rparr>) FSM_ERROR"
  by (simp add: getObject_callback_def responseError_def Let_def)

lemma tick_not_starting: "state l \<noteq> FSM_STARTING \<Longrightarrow> tick l = l"
  by (cases "state l") (simp_all add: tick_def ready_def)

lemma tick_starting:
  "state l = FSM_STARTING \<Longrightarrow>
     tick l = l\<lparr>lparam := (lparam l)\<lparr>Range := Some (nextRange l)\<rparr>,
               requests := requests l @ [(lparam l)\<lparr>Range := Some (nextRange l)\<rparr>],
               outstanding := True\<rparr>"
  by (simp add: tick_def ready_def Let_def)

text \<open>A quiet loader issues no further request, whatever happens.\<close>

lemma quiet_fire:
  assumes "quiet l"
  shows "quiet (fire l ev)" and "requests (fire l ev) = requests l"
    and "lerr (fire l ev) = lerr l" and "readStream (fire l ev) = readStream l"
    and "contentPos (fire l ev) = contentPos l" and "contentLength (fire l ev) = contentLength l"
    and "pipes (fire l ev) = pipes l"
    and "ended (passThrough l) \<longrightarrow> ended (passThrough (fire l ev))"
    and "state l \<noteq> FSM_STARTING \<longrightarrow> state (fire l ev) \<noteq> FSM_STARTING"
  using assms
  by (cases ev; simp add: quiet_def tick_not_starting on_end_def on_error_def mbpt_done_def)+

lemma quiet_run:
  assumes "quiet l"
  shows "quiet (run l evs) \<and> requests (run l evs) = requests l
    \<and> lerr (run l evs) = lerr l \<and> readStream (run l evs) = readStream l
    \<and> contentPos (run l evs) = contentPos l \<and> contentLength (run l evs) = contentLength l
    \<and> pipes (run l evs) = pipes l
    \<and> (ended (passThrough l) \<longrightarrow> ended (passThrough (run l evs)))
    \<and> (state l \<noteq> FSM_STARTING \<longrightarrow> state (run l evs) \<noteq> FSM_STARTING)"
  using assms
proof (induction evs arbitrary: l)
  case Nil
  then show ?case by simp
next
  case (Cons ev evs)
  from quiet_fire [OF Cons.prems, of ev] Cons.IH [of "fire l ev"]
  show ?case by simp
qed

lemma quiet_run_chunks:
  assumes "quiet l" "StreamEnd \<notin> set evs" "StreamError \<notin> set evs"
  shows "transitions (run l evs) = transitions l \<and> state (run l evs) = state l"
  using assms
proof (induction evs arbitrary: l)
  case Nil
  then show ?case by simp
next
  case (Cons ev evs)
  have "quiet (fire l ev)" using Cons.prems(1) by (rule quiet_fire)
  moreover have "transitions (fire l ev) = transitions l \<and> state (fire l ev) = state l"
    using Cons.prems by (cases ev) (auto simp: quiet_def tick_not_starting)
  ultimately show ?case using Cons.IH [of "fire l ev"] Cons.prems by simp
qed

lemma new_loader0:
  "FsmStreamLoader_new (bucketMap manager0) demoBlob
     = Some (loader0, demoBlob\<lparr>asLoadStream := Some ExposedStream\<rparr>)"
  by (simp add: FsmStreamLoader_new_def blobBucket_def lookupBucket.simps manager0_def
      demoBlob_def loader0_def)

lemma new_loader_fields:
  assumes "FsmStreamLoader_new bm b = Some (l, b')"
  shows "state l = FSM_STARTING" "tickQueued l" "\<not> outstanding l" "requests l = []"
    "contentLength l = None" "contentPos l = 0" "lerr l = None" "\<not> ended (readStream l)"
    "pipes l = []" "transitions l = []"
  using assms
  by (auto simp: FsmStreamLoader_new_def mbpt_new_def split: option.splits)

text \<open>One round: the scheduled tick, then a response whose content range is read.\<close>

lemma round_matching:
  assumes "state l = FSM_STARTING" "tickQueued l" "\<not> outstanding l"
    and "ContentRange d = Some s" "re_exec s = Some (m1, m2, m3)"
  defines "l' \<equiv> fire (fire l ManagerTick) (Response (ChunkData d))"
  shows "requests l' = requests l @ [(lparam l)\<lparr>Range := Some (nextRange l)\<rparr>]"
    and "contentPos l' = Number m2 + 1" and "contentLength l' = Some (Number m3)"
    and "\<not> outstanding l'" and "state l' = FSM_STARTING"
    and "tickQueued l' \<longleftrightarrow> Number m2 + 1 \<noteq> Number m3"
  using assms(1-5) unfolding l'_def
  by (simp_all add: tick_starting callback_data absorb_range)

text \<open>The expression matches exactly the strings that contain a header of the format.\<close>

lemma literal_SomeD: "literal p s = Some r \<Longrightarrow> s = p @ r"
  by (auto simp: literal_def split: if_splits) (metis append_take_drop_id)

lemma digits1_SomeD:
  "digits1 s = Some (d, r) \<Longrightarrow> s = d @ r \<and> d \<noteq> [] \<and> (\<forall>c \<in> set d. is_digit c)"
  by (auto simp: digits1_def Let_def split: if_splits dest: set_takeWhileD)

lemma match_here_SomeD:
  assumes "match_here s = Some (m1, m2, m3)"
  shows "\<exists>post. s = ''bytes '' @ m1 @ ''-'' @ m2 @ ''/'' @ m3 @ post
           \<and> m1 \<noteq> [] \<and> m2 \<noteq> [] \<and> m3 \<noteq> [] \<and> (\<forall>c \<in> set (m1 @ m2 @ m3). is_digit c)"
proof -
  from assms obtain s1 s2 s3 s4 s5 s6 where
    a: "literal ''bytes '' s = Some s1" "digits1 s1 = Some (m1, s2)"
       "literal ''-'' s2 = Some s3" "digits1 s3 = Some (m2, s4)"
       "literal ''/'' s4 = Some s5" "digits1 s5 = Some (m3, s6)"
    by (auto simp: match_here_def split: option.splits)
  from a(1,3,5) [THEN literal_SomeD] a(2,4,6) [THEN digits1_SomeD]
  have "s = ''bytes '' @ m1 @ ''-'' @ m2 @ ''/'' @ m3 @ s6"
    and "m1 \<noteq> []" "m2 \<noteq> []" "m3 \<noteq> []" "\<forall>c \<in> set (m1 @ m2 @ m3). is_digit c"
    by auto
  then show ?thesis by blast
qed

lemma re_exec_sound: "re_exec s = Some (m1, m2, m3) \<Longrightarrow> headerMatch s"
proof (induction s)
  case Nil
  then show ?case by (simp add: re_exec_Nil)
next
  case (Cons c cs)
  show ?case
  proof (cases "match_here (c # cs)")
    case None
    with Cons.prems have "re_exec cs = Some (m1, m2, m3)" by (simp add: re_exec.simps)
    from Cons.IH [OF this] obtain pre d1 d2 d3 post where
      "cs = pre @ ''bytes '' @ d1 @ ''-'' @ d2 @ ''/'' @ d3 @ post"
      "d1 \<noteq> []" "d2 \<noteq> []" "d3 \<noteq> []" "\<forall>c \<in> set (d1 @ d2 @ d3). is_digit c"
      unfolding headerMatch_def by blast
    then have "c # cs = (c # pre) @ ''bytes '' @ d1 @ ''-'' @ d2 @ ''/'' @ d3 @ post
        \<and> d1 \<noteq> [] \<and> d2 \<noteq> [] \<and> d3 \<noteq> [] \<and> (\<forall>c \<in> set (d1 @ d2 @ d3). is_digit c)"
      by simp
    then show ?thesis unfolding headerMatch_def by blast
  next
    case (Some m)
    with Cons.prems have "match_here (c # cs) = Some (m1, m2, m3)" by (simp add: re_exec.simps)
    from match_here_SomeD [OF this] obtain post where
      "c # cs = [] @ ''bytes '' @ m1 @ ''-'' @ m2 @ ''/'' @ m3 @ post
        \<and> m1 \<noteq> [] \<and> m2 \<noteq> [] \<and> m3 \<noteq> [] \<and> (\<forall>c \<in> set (m1 @ m2 @ m3). is_digit c)"
      by auto
    then show ?thesis unfolding headerMatch_def by blast
  qed
qed

lemma match_here_complete:
  assumes "d1 \<noteq> []" "d2 \<noteq> []" "d3 \<noteq> []" "\<forall>c \<in> set (d1 @ d2 @ d3). is_digit c"
  shows "match_here (''bytes '' @ d1 @ ''-'' @ d2 @ ''/'' @ d3 @ post)
           = Some (d1, d2, d3 @ takeWhile is_digit post)"
proof -
  let ?d3 = "d3 @ takeWhile is_digit post" and ?post = "dropWhile is_digit post"
  have "?post = [] \<or> \<not> is_digit (hd ?post)"
    using hd_dropWhile [of is_digit post] by blast
  moreover have "\<forall>c \<in> set ?d3. is_digit c"
    using assms(4) by (auto dest: set_takeWhileD)
  ultimately have "match_here (''bytes '' @ d1 @ ''-'' @ d2 @ ''/'' @ ?d3 @ ?post)
      = Some (d1, d2, ?d3)"
    using assms by (intro match_here_header) auto
  then show ?thesis by simp
qed

lemma re_exec_complete: "headerMatch s \<Longrightarrow> re_exec s \<noteq> None"
proof -
  assume "headerMatch s"
  then obtain pre d1 d2 d3 post where
    s: "s = pre @ ''bytes '' @ d1 @ ''-'' @ d2 @ ''/'' @ d3 @ post"
    and d: "d1 \<noteq> []" "d2 \<noteq> []" "d3 \<noteq> []" "\<forall>c \<in> set (d1 @ d2 @ d3). is_digit c"
    unfolding headerMatch_def by blast
  have "re_exec (pre @ ''bytes '' @ d1 @ ''-'' @ d2 @ ''/'' @ d3 @ post) \<noteq> None"
  proof (induction pre)
    case Nil
    have "re_exec (''bytes '' @ d1 @ ''-'' @ d2 @ ''/'' @ d3 @ post)
        = Some (d1, d2, d3 @ takeWhile is_digit post)"
      by (rule re_exec_at_start) (rule match_here_complete [OF d])
    then show ?case by simp
  next
    case (Cons c pre)
    then show ?case by (simp add: re_exec.simps split: option.splits)
  qed
  then show ?thesis by (simp add: s)
qed

lemma re_exec_None_iff: "re_exec s = None \<longleftrightarrow> \<not> headerMatch s"
  using re_exec_sound [of s] re_exec_complete [of s] by (cases "re_exec s") auto

section \<open>The ranges requested\<close>

text \<open>
  Claim C2. \<open>ChunkSize\<close> is 4,000,000. A tick of a loader that is ready and in
  \<open>FSM_STARTING\<close> issues one request, whose range is \<open>bytes=0-3999999\<close> while the content
  length is unknown and \<open>bytes=<contentPos>-<min(contentPos + ChunkSize - 1,
  contentLength - 1)>\<close> once it is known. A fetch whose three responses report the ranges
  of a 9,000,000-byte object issues the three requests \<open>bytes=0-3999999\<close>,
  \<open>bytes=4000000-7999999\<close>, \<open>bytes=8000000-8999999\<close>, and no other request whatever
  happens afterwards.
\<close>

theorem chunk_ranges:
  "ChunkSize = 4000000
   \<and> (ready l \<and> state l = FSM_STARTING \<longrightarrow>
        requests (tick l) = requests l @ [(lparam l)\<lparr>Range := Some (nextRange l)\<rparr>])
   \<and> (contentLength l = None \<longrightarrow> nextRange l = ''bytes=0-3999999'')
   \<and> (contentLength l = Some n \<longrightarrow>
        nextRange l = ''bytes='' @ show_int (contentPos l) @ ''-''
                        @ show_int (min (contentPos l + ChunkSize - 1) (n - 1)))
   \<and> (FsmStreamLoader_new bm b = Some (l0, b')
        \<and> ContentRange d1 = Some ''bytes 0-3999999/9000000''
        \<and> ContentRange d2 = Some ''bytes 4000000-7999999/9000000''
        \<and> ContentRange d3 = Some ''bytes 8000000-8999999/9000000'' \<longrightarrow>
        map Range (requests (run l0 ([ManagerTick, Response (ChunkData d1),
                                      ManagerTick, Response (ChunkData d2),
                                      ManagerTick, Response (ChunkData d3)] @ evs)))
          = [Some ''bytes=0-3999999'', Some ''bytes=4000000-7999999'',
             Some ''bytes=8000000-8999999''])"
proof (intro conjI impI)
  show "ChunkSize = 4000000" by (simp add: ChunkSize_def)
  show "requests (tick l) = requests l @ [(lparam l)\<lparr>Range := Some (nextRange l)\<rparr>]"
    if "ready l \<and> state l = FSM_STARTING"
    using that by (simp add: tick_starting)
  show "nextRange l = ''bytes=0-3999999''" if "contentLength l = None"
    using that
    by (simp add: nextRange_def rangeHeader_def ChunkSize_def show_int_def show_nat.simps
        digitChar_eval)
  show "nextRange l = ''bytes='' @ show_int (contentPos l) @ ''-''
                        @ show_int (min (contentPos l + ChunkSize - 1) (n - 1))"
    if "contentLength l = Some n"
    using that by (simp add: nextRange_def rangeHeader_def)
next
  assume h: "FsmStreamLoader_new bm b = Some (l0, b')
        \<and> ContentRange d1 = Some ''bytes 0-3999999/9000000''
        \<and> ContentRange d2 = Some ''bytes 4000000-7999999/9000000''
        \<and> ContentRange d3 = Some ''bytes 8000000-8999999/9000000''"
  note n = Number_examples
  define l1 where "l1 = fire (fire l0 ManagerTick) (Response (ChunkData d1))"
  define l2 where "l2 = fire (fire l1 ManagerTick) (Response (ChunkData d2))"
  define l3 where "l3 = fire (fire l2 ManagerTick) (Response (ChunkData d3))"
  note f0 = new_loader_fields [of bm b l0 b']
  have r1: "requests l1 = [(lparam l0)\<lparr>Range := Some (nextRange l0)\<rparr>]"
    "contentPos l1 = 4000000" "contentLength l1 = Some 9000000"
    "\<not> outstanding l1" "state l1 = FSM_STARTING" "tickQueued l1"
    using round_matching [of l0 d1, OF _ _ _ _ re_exec_examples(1)] h f0
    unfolding l1_def by (simp_all add: n)
  have r2: "requests l2 = requests l1 @ [(lparam l1)\<lparr>Range := Some (nextRange l1)\<rparr>]"
    "contentPos l2 = 8000000" "contentLength l2 = Some 9000000"
    "\<not> outstanding l2" "state l2 = FSM_STARTING" "tickQueued l2"
    using round_matching [of l1 d2, OF _ _ _ _ re_exec_examples(2)] h r1
    unfolding l2_def by (simp_all add: n)
  have r3: "requests l3 = requests l2 @ [(lparam l2)\<lparr>Range := Some (nextRange l2)\<rparr>]"
    "\<not> outstanding l3" "\<not> tickQueued l3"
    using round_matching [of l2 d3, OF _ _ _ _ re_exec_examples(3)] h r2
    unfolding l3_def by (simp_all add: n)
  have q: "quiet l3" using r3 by (simp add: quiet_def)
  have nr: "nextRange l0 = ''bytes=0-3999999''" "nextRange l1 = ''bytes=4000000-7999999''"
    "nextRange l2 = ''bytes=8000000-8999999''"
    using h f0 r1 r2
    by (simp_all add: nextRange_def rangeHeader_def ChunkSize_def show_int_def show_nat.simps
        digitChar_eval)
  have "run l0 ([ManagerTick, Response (ChunkData d1), ManagerTick, Response (ChunkData d2),
                 ManagerTick, Response (ChunkData d3)] @ evs) = run l3 evs"
    by (simp add: l1_def l2_def l3_def)
  moreover have "requests (run l3 evs) = requests l3"
    using quiet_run [OF q, of evs] by simp
  ultimately show "map Range (requests (run l0 ([ManagerTick, Response (ChunkData d1),
                                      ManagerTick, Response (ChunkData d2),
                                      ManagerTick, Response (ChunkData d3)] @ evs)))
          = [Some ''bytes=0-3999999'', Some ''bytes=4000000-7999999'',
             Some ''bytes=8000000-8999999'']"
    by (simp add: r1 r2 r3 nr)
qed

theorem chunk_ranges_witness:
  "ready loader0 \<and> state loader0 = FSM_STARTING \<and> contentLength loader0 = None
   \<and> map Range (requests (tick loader0)) = [Some ''bytes=0-3999999'']
   \<and> contentLength (loader0\<lparr>contentLength := Some 9000000, contentPos := 8000000\<rparr>)
       = Some 9000000
   \<and> nextRange (loader0\<lparr>contentLength := Some 9000000, contentPos := 8000000\<rparr>)
       = ''bytes=8000000-8999999''
   \<and> FsmStreamLoader_new (bucketMap manager0) demoBlob
       = Some (loader0, demoBlob\<lparr>asLoadStream := Some ExposedStream\<rparr>)
   \<and> ContentRange chunkA = Some ''bytes 0-3999999/9000000''
   \<and> ContentRange chunkB = Some ''bytes 4000000-7999999/9000000''
   \<and> ContentRange (chunkData (Some ''bytes 8000000-8999999/9000000'') None None)
       = Some ''bytes 8000000-8999999/9000000''
   \<and> map Range (requests (run loader0 ([ManagerTick, Response (ChunkData chunkA),
        ManagerTick, Response (ChunkData chunkB), ManagerTick,
        Response (ChunkData (chunkData (Some ''bytes 8000000-8999999/9000000'') None None))]
        @ [ManagerTick, StreamEnd, ManagerTick])))
     = [Some ''bytes=0-3999999'', Some ''bytes=4000000-7999999'', Some ''bytes=8000000-8999999'']"
proof -
  let ?l = "loader0\<lparr>contentLength := Some 9000000, contentPos := 8000000\<rparr>"
  let ?d3 = "chunkData (Some ''bytes 8000000-8999999/9000000'') None None"
  have a: "ready loader0 \<and> state loader0 = FSM_STARTING" "contentLength loader0 = None"
    "requests loader0 = []" "Range (lparam loader0) = None"
    by (simp_all add: loader0_def ready_def)
  have b: "contentLength ?l = Some 9000000" "contentPos ?l = 8000000"
    by simp_all
  have c: "ContentRange chunkA = Some ''bytes 0-3999999/9000000''"
    "ContentRange chunkB = Some ''bytes 4000000-7999999/9000000''"
    "ContentRange ?d3 = Some ''bytes 8000000-8999999/9000000''"
    by (simp_all add: chunkA_def chunkB_def chunkData_def)
  have s: "show_int 8000000 = ''8000000''" "show_int 8999999 = ''8999999''"
    by (simp_all add: show_int_def show_nat.simps digitChar_eval)
  note t1 = chunk_ranges [of loader0 9000000 "bucketMap manager0" demoBlob loader0
      "demoBlob\<lparr>asLoadStream := Some ExposedStream\<rparr>" chunkA chunkB ?d3
      "[ManagerTick, StreamEnd, ManagerTick]"]
  note t2 = chunk_ranges [of ?l 9000000]
  have "map Range (requests (tick loader0)) = [Some ''bytes=0-3999999'']"
    using t1 a by simp
  moreover have "nextRange ?l = ''bytes=8000000-8999999''"
    using t2 b by (simp add: ChunkSize_def s)
  moreover have "map Range (requests (run loader0 ([ManagerTick, Response (ChunkData chunkA),
        ManagerTick, Response (ChunkData chunkB), ManagerTick, Response (ChunkData ?d3)]
        @ [ManagerTick, StreamEnd, ManagerTick])))
     = [Some ''bytes=0-3999999'', Some ''bytes=4000000-7999999'', Some ''bytes=8000000-8999999'']"
    using t1 new_loader0 c by blast
  ultimately show ?thesis
    using a(1,2) b(1) new_loader0 c by blast
qed

section \<open>The content range of a response\<close>

text \<open>
  Claim C4. After a response whose content-range header is \<open>bytes <a>-<b>/<c>\<close> the
  position is \<open>b + 1\<close> and the length is \<open>c\<close>; in general, when the header contains a
  match of the expression, the position is one more than the second capture and the length
  is the third capture. When the header is absent or contains no match, and when the
  backend answers with an error, position and length are unchanged.
\<close>

theorem content_range_update:
  "(ContentRange d = Some (''bytes '' @ show_nat a @ ''-'' @ show_nat b @ ''/'' @ show_nat c) \<longrightarrow>
      contentPos (getObject_callback l (ChunkData d)) = int b + 1
    \<and> contentLength (getObject_callback l (ChunkData d)) = Some (int c))
   \<and> (ContentRange d = Some s \<and> headerMatch s \<longrightarrow>
      (\<exists>m1 m2 m3. re_exec s = Some (m1, m2, m3)
         \<and> contentPos (getObject_callback l (ChunkData d)) = Number m2 + 1
         \<and> contentLength (getObject_callback l (ChunkData d)) = Some (Number m3)))
   \<and> (ContentRange d = None \<or> (\<exists>s. ContentRange d = Some s \<and> \<not> headerMatch s) \<longrightarrow>
      contentPos (getObject_callback l (ChunkData d)) = contentPos l
    \<and> contentLength (getObject_callback l (ChunkData d)) = contentLength l)
   \<and> contentPos (getObject_callback l (ChunkError e)) = contentPos l
   \<and> contentLength (getObject_callback l (ChunkError e)) = contentLength l"
proof -
  let ?l' = "getObject_callback l (ChunkData d)"
  have pos: "contentPos ?l' = contentPos (absorb l d)"
    and len: "contentLength ?l' = contentLength (absorb l d)"
    by (simp_all add: callback_data)
  have matched: "contentPos ?l' = Number n2 + 1 \<and> contentLength ?l' = Some (Number n3)"
    if "ContentRange d = Some t" and "re_exec t = Some (n1, n2, n3)" for t n1 n2 n3
    unfolding pos len using that by (simp add: absorb_range)
  have found: "\<exists>m1 m2 m3. re_exec s = Some (m1, m2, m3)
         \<and> contentPos ?l' = Number m2 + 1 \<and> contentLength ?l' = Some (Number m3)"
    if "ContentRange d = Some s \<and> headerMatch s"
  proof -
    from that re_exec_complete [of s] obtain m1 m2 m3 where "re_exec s = Some (m1, m2, m3)"
      by (cases "re_exec s") auto
    with that matched [of s m1 m2 m3] show ?thesis by blast
  qed
  have unmatched: "contentPos ?l' = contentPos l \<and> contentLength ?l' = contentLength l"
    if "ContentRange d = None \<or> (\<exists>s. ContentRange d = Some s \<and> \<not> headerMatch s)"
    unfolding pos len using that by (auto simp: absorb_range re_exec_None_iff [symmetric])
  have formatted: "contentPos ?l' = int b + 1 \<and> contentLength ?l' = Some (int c)"
    if "ContentRange d = Some (''bytes '' @ show_nat a @ ''-'' @ show_nat b @ ''/'' @ show_nat c)"
    using matched [OF that re_exec_header] by (simp only: Number_show_nat)
  have failed: "contentPos (getObject_callback l (ChunkError e)) = contentPos l
      \<and> contentLength (getObject_callback l (ChunkError e)) = contentLength l"
    by (simp add: callback_error)
  show ?thesis
    using found unmatched formatted failed by blast
qed

theorem content_range_update_witness:
  "ContentRange chunkB
     = Some (''bytes '' @ show_nat 4000000 @ ''-'' @ show_nat 7999999 @ ''/'' @ show_nat 9000000)
   \<and> ContentRange chunkB = Some ''bytes 4000000-7999999/9000000''
   \<and> headerMatch ''bytes 4000000-7999999/9000000''
   \<and> (\<exists>m1 m2 m3. re_exec ''bytes 4000000-7999999/9000000'' = Some (m1, m2, m3)
         \<and> contentPos (getObject_callback loader0 (ChunkData chunkB)) = Number m2 + 1)
   \<and> contentPos (getObject_callback loader0 (ChunkData chunkB)) = 8000000
   \<and> contentLength (getObject_callback loader0 (ChunkData chunkB)) = Some 9000000
   \<and> ContentRange (chunkData (Some ''bytes 0-99'') None None) = Some ''bytes 0-99''
   \<and> \<not> headerMatch ''bytes 0-99''
   \<and> contentPos (getObject_callback loader0 (ChunkData (chunkData (Some ''bytes 0-99'') None None)))
       = 0
   \<and> contentLength
        (getObject_callback loader0 (ChunkData (chunkData (Some ''bytes 0-99'') None None)))
       = None
   \<and> ContentRange plainNoRange = None
   \<and> contentPos (getObject_callback loader0 (ChunkData plainNoRange)) = 0"
proof -
  have s: "''bytes '' @ show_nat 4000000 @ ''-'' @ show_nat 7999999 @ ''/'' @ show_nat 9000000
           = ''bytes 4000000-7999999/9000000''"
    by (simp add: show_nat.simps digitChar_eval)
  have h1: "ContentRange chunkB
     = Some (''bytes '' @ show_nat 4000000 @ ''-'' @ show_nat 7999999 @ ''/'' @ show_nat 9000000)"
    unfolding s by (simp add: chunkB_def chunkData_def)
  have h2: "headerMatch ''bytes 4000000-7999999/9000000''"
    using re_exec_None_iff [of "''bytes 4000000-7999999/9000000''"] re_exec_examples(2) by simp
  have h3: "ContentRange (chunkData (Some ''bytes 0-99'') None None) = Some ''bytes 0-99''"
    and h4: "ContentRange plainNoRange = None"
    by (simp_all add: chunkData_def plainNoRange_def)
  have h5: "\<not> headerMatch ''bytes 0-99''"
    using re_exec_None_iff [of "''bytes 0-99''"] re_exec_examples(5) by simp
  have l0: "contentPos loader0 = 0" "contentLength loader0 = None"
    by (simp_all add: loader0_def)
  note t1 = content_range_update [of chunkB 4000000 7999999 9000000 loader0]
  note t0 = content_range_update [of chunkB _ _ _ loader0 "''bytes 4000000-7999999/9000000''"]
  have h0: "ContentRange chunkB = Some ''bytes 4000000-7999999/9000000''"
    by (simp add: chunkB_def chunkData_def)
  have m: "\<exists>m1 m2 m3. re_exec ''bytes 4000000-7999999/9000000'' = Some (m1, m2, m3)
         \<and> contentPos (getObject_callback loader0 (ChunkData chunkB)) = Number m2 + 1"
    using t0 h0 h2 by blast
  note t2 = content_range_update [of "chunkData (Some ''bytes 0-99'') None None" _ _ _ loader0]
  note t3 = content_range_update [of plainNoRange _ _ _ loader0]
  have "contentPos (getObject_callback loader0 (ChunkData chunkB)) = 8000000
      \<and> contentLength (getObject_callback loader0 (ChunkData chunkB)) = Some 9000000"
    using t1 h1 by simp
  moreover have "contentPos (getObject_callback loader0
        (ChunkData (chunkData (Some ''bytes 0-99'') None None))) = 0
      \<and> contentLength (getObject_callback loader0
        (ChunkData (chunkData (Some ''bytes 0-99'') None None))) = None"
    using t2 h3 h5 l0 by simp
  moreover have "contentPos (getObject_callback loader0 (ChunkData plainNoRange)) = 0"
    using t3 h4 l0 by simp
  ultimately show ?thesis
    using h0 h1 h2 h3 h4 h5 m by blast
qed

section \<open>The decompression decision\<close>

text \<open>
  Claim C3. When the first successful response carries no content range, the content
  length stays unknown, the same range is requested again, and the next successful response
  makes the decision a second time: after a plain response and a gzip response the
  write-side stream is piped to the exposed stream twice, once directly and once through
  gunzip.
\<close>

theorem pipe_decided_twice:
  "pipes (run loader0 [ManagerTick, Response (ChunkData plainNoRange),
                       ManagerTick, Response (ChunkData gzipNoRange)])
     = [Direct, ViaGunzip]
   \<and> map Range (requests (run loader0 [ManagerTick, Response (ChunkData plainNoRange),
                                        ManagerTick, Response (ChunkData gzipNoRange)]))
     = [Some ''bytes=0-3999999'', Some ''bytes=0-3999999'']"
  by (simp add: loader0_def plainNoRange_def gzipNoRange_def chunkData_def tick_starting
      callback_data absorb_range absorb_pipes isGzip_def nextRange_def rangeHeader_def
      ChunkSize_def show_int_def show_nat.simps digitChar_eval)

text \<open>
  Once the content length is known, no response changes the pipes, and the length stays
  known: a first response with a readable content range makes the decision final.
\<close>

lemma pipe_decided_once_known:
  "contentLength l \<noteq> None \<Longrightarrow>
     pipes (getObject_callback l r) = pipes l \<and> contentLength (getObject_callback l r) \<noteq> None"
  by (cases r) (auto simp: callback_data callback_error absorb_pipes absorb_range
      split: option.splits)

lemma pipe_first_response:
  "contentLength l = None \<Longrightarrow>
     pipes (getObject_callback l (ChunkData d))
       = pipes l @ [if ContentEncoding d = Some ''gzip'' then ViaGunzip else Direct]"
  by (auto simp: callback_data absorb_pipes isGzip_def split: option.splits)

section \<open>Position and completion\<close>

lemma loaderInv_new: "FsmStreamLoader_new bm b = Some (l, b') \<Longrightarrow> loaderInv l"
  by (auto simp: FsmStreamLoader_new_def loaderInv_def mbpt_new_def split: option.splits)

lemma loaderInv_tick:
  assumes "loaderInv l" "tickQueued l"
  shows "loaderInv (tick (l\<lparr>tickQueued := False\<rparr>))"
proof (cases "state l = FSM_STARTING")
  case True
  then show ?thesis using assms by (auto simp: tick_starting loaderInv_def)
next
  case False
  then show ?thesis using assms by (auto simp: tick_not_starting loaderInv_def)
qed

lemma loaderInv_error:
  assumes "loaderInv l" "outstanding l"
  shows "loaderInv (getObject_callback (l\<lparr>outstanding := False\<rparr>) (ChunkError e))"
  using assms by (auto simp: callback_error loaderInv_def mbpt_done_def)

lemma loaderInv_data:
  assumes "loaderInv l" "outstanding l"
  shows "loaderInv (getObject_callback (l\<lparr>outstanding := False\<rparr>) (ChunkData d))"
proof -
  have ne: "\<not> ended (readStream l)" "lerr l = None"
    using assms by (auto simp: loaderInv_def)
  have z: "contentLength (absorb l d) = None \<longrightarrow> contentPos (absorb l d) = 0"
    using assms(1) by (auto simp: absorb_range loaderInv_def split: option.splits)
  show ?thesis
  proof (cases "Some (contentPos (absorb l d)) = contentLength (absorb l d)")
    case True
    then show ?thesis
      using assms ne z by (auto simp: callback_data loaderInv_def mbpt_done_def)
  next
    case False
    then show ?thesis
      using assms ne z by (auto simp: callback_data loaderInv_def)
  qed
qed

lemma loaderInv_fire: "loaderInv l \<Longrightarrow> loaderInv (fire l ev)"
proof (cases ev)
  case ManagerTick
  assume "loaderInv l"
  then show ?thesis using ManagerTick by (simp add: loaderInv_tick)
next
  case (Response r)
  assume "loaderInv l"
  then show ?thesis using Response by (cases r) (simp_all add: loaderInv_error loaderInv_data)
next
  case StreamEnd
  assume "loaderInv l"
  then show ?thesis using StreamEnd by (auto simp: on_end_def loaderInv_def)
next
  case StreamError
  assume "loaderInv l"
  then show ?thesis using StreamError by (auto simp: on_error_def loaderInv_def)
qed

lemma loaderInv_run: "loaderInv l \<Longrightarrow> loaderInv (run l evs)"
  by (induction evs arbitrary: l) (simp_all add: loaderInv_fire)

lemma pos_fire:
  assumes "loaderInv l" "answered l ev"
  shows "contentPos l \<le> contentPos (fire l ev)"
proof (cases ev)
  case ManagerTick
  then show ?thesis
    by (cases "state l = FSM_STARTING") (simp_all add: tick_starting tick_not_starting)
next
  case (Response r)
  show ?thesis
  proof (cases "outstanding l")
    case False
    then show ?thesis using Response by simp
  next
    case True
    then have a: "answers l r" using assms(2) Response by (simp add: answered_def)
    have fb: "firstByte l = contentPos l"
      using assms(1) by (auto simp: firstByte_def loaderInv_def split: option.splits)
    show ?thesis
    proof (cases r)
      case (ChunkError e)
      then show ?thesis using Response True by (simp add: callback_error)
    next
      case (ChunkData d)
      have "contentPos l \<le> contentPos (absorb l d)"
        using a fb ChunkData by (auto simp: answers_def absorb_range split: option.splits)
      then show ?thesis using Response True ChunkData by (simp add: callback_data)
    qed
  qed
next
  case StreamEnd
  then show ?thesis by (simp add: on_end_def)
next
  case StreamError
  then show ?thesis by (simp add: on_error_def)
qed

lemma conforming_snoc:
  "conforming l (evs @ [ev]) \<longleftrightarrow> conforming l evs \<and> answered (run l evs) ev"
  by (induction evs arbitrary: l) auto

text \<open>
  Claim C5, as stated, fails: the position is whatever the last content range reports. A
  second response that reports the range 0-99 takes the position from 4000000 back to 100.
\<close>

theorem position_goes_back:
  "contentPos (run loader0 [ManagerTick, Response (ChunkData chunkA)]) = 4000000
   \<and> contentPos (run loader0 [ManagerTick, Response (ChunkData chunkA),
                              ManagerTick, Response (ChunkData chunkBack)]) = 100"
  by (simp add: loader0_def chunkA_def chunkBack_def chunkData_def tick_starting callback_data
      absorb_range re_exec_examples Number_examples)

text \<open>
  Claim C5, amended. In every run of a new loader in which each response answers the
  outstanding request (its content range, if it can be read, starts at the first byte
  requested and is not empty), no step decreases the position. In every run whatever, the
  write-side stream has been closed exactly when the position equals the known length with
  no error recorded, or an error is recorded.
\<close>

theorem position_and_completion:
  "FsmStreamLoader_new bm b = Some (l0, b') \<longrightarrow>
     (conforming l0 (evs @ [ev]) \<longrightarrow> contentPos (run l0 evs) \<le> contentPos (run l0 (evs @ [ev])))
   \<and> (ended (readStream (run l0 evs)) \<longleftrightarrow>
        (contentLength (run l0 evs) = Some (contentPos (run l0 evs)) \<and> lerr (run l0 evs) = None)
        \<or> lerr (run l0 evs) \<noteq> None)"
proof
  assume n: "FsmStreamLoader_new bm b = Some (l0, b')"
  have i: "loaderInv (run l0 evs)"
    using loaderInv_new [OF n] by (rule loaderInv_run)
  have "contentPos (run l0 evs) \<le> contentPos (run l0 (evs @ [ev]))"
    if "conforming l0 (evs @ [ev])"
    using that pos_fire [OF i, of ev] by (simp add: conforming_snoc run_append)
  moreover have "ended (readStream (run l0 evs)) \<longleftrightarrow>
        (contentLength (run l0 evs) = Some (contentPos (run l0 evs)) \<and> lerr (run l0 evs) = None)
        \<or> lerr (run l0 evs) \<noteq> None"
    using i by (auto simp: loaderInv_def)
  ultimately show "(conforming l0 (evs @ [ev]) \<longrightarrow>
        contentPos (run l0 evs) \<le> contentPos (run l0 (evs @ [ev])))
   \<and> (ended (readStream (run l0 evs)) \<longleftrightarrow>
        (contentLength (run l0 evs) = Some (contentPos (run l0 evs)) \<and> lerr (run l0 evs) = None)
        \<or> lerr (run l0 evs) \<noteq> None)"
    by blast
qed

theorem position_and_completion_witness:
  "FsmStreamLoader_new (bucketMap manager0) demoBlob
     = Some (loader0, demoBlob\<lparr>asLoadStream := Some ExposedStream\<rparr>)
   \<and> conforming loader0 ([ManagerTick, Response (ChunkData chunkA), ManagerTick]
                         @ [Response (ChunkData chunkB)])
   \<and> contentPos (run loader0 [ManagerTick, Response (ChunkData chunkA), ManagerTick]) = 4000000
   \<and> contentPos (run loader0 ([ManagerTick, Response (ChunkData chunkA), ManagerTick]
                              @ [Response (ChunkData chunkB)])) = 8000000
   \<and> contentPos (run loader0 [ManagerTick, Response (ChunkData chunkA), ManagerTick])
       \<le> contentPos (run loader0 ([ManagerTick, Response (ChunkData chunkA), ManagerTick]
                                   @ [Response (ChunkData chunkB)]))
   \<and> \<not> ended (readStream (run loader0 [ManagerTick, Response (ChunkData chunkA), ManagerTick]))"
proof -
  let ?evs = "[ManagerTick, Response (ChunkData chunkA), ManagerTick]"
  let ?ev = "Response (ChunkData chunkB)"
  have c: "conforming loader0 (?evs @ [?ev])"
    by (simp add: answered_def answers_def firstByte_def loader0_def chunkA_def chunkB_def
        chunkData_def tick_starting callback_data absorb_range re_exec_examples Number_examples)
  have p: "contentPos (run loader0 ?evs) = 4000000"
    "contentPos (run loader0 (?evs @ [?ev])) = 8000000"
    "contentLength (run loader0 ?evs) = Some 9000000"
    "lerr (run loader0 ?evs) = None"
    by (simp_all add: loader0_def chunkA_def chunkB_def chunkData_def tick_starting callback_data
        absorb_range re_exec_examples Number_examples)
  note t = position_and_completion [of "bucketMap manager0" demoBlob loader0
        "demoBlob\<lparr>asLoadStream := Some ExposedStream\<rparr>" ?evs ?ev]
  have "contentPos (run loader0 ?evs) \<le> contentPos (run loader0 (?evs @ [?ev]))"
    using t new_loader0 c by blast
  moreover have "\<not> ended (readStream (run loader0 ?evs))"
    using t new_loader0 p(1,3,4) by auto
  ultimately show ?thesis
    using new_loader0 c p(1,2) by blast
qed

section \<open>Errors of a chunk fetch\<close>

text \<open>
  What the error branch of the callback achieves. When the backend answers the outstanding
  request with an error, the callback closes the write-side stream and the exposed stream,
  records the error, and moves the loader to \<open>FSM_ERROR\<close> by one transition; it issues
  no request and writes no byte. Whatever happens afterwards (ticks, late responses, events
  of the pipeline), no request is issued any more, the error stays recorded, both streams
  stay closed, and the loader never returns to \<open>FSM_STARTING\<close>; ticks and responses
  cause no further transition. Events of the pipeline do, as the theorem after this one
  shows.
\<close>

lemma chunk_error_callback:
  "outstanding l \<longrightarrow>
     ended (readStream (fire l (Response (ChunkError e))))
   \<and> ended (passThrough (fire l (Response (ChunkError e))))
   \<and> state (fire l (Response (ChunkError e))) = FSM_ERROR
   \<and> lerr (fire l (Response (ChunkError e))) = Some e
   \<and> transitions (fire l (Response (ChunkError e))) = transitions l @ [FSM_ERROR]
   \<and> requests (fire l (Response (ChunkError e))) = requests l
   \<and> written (readStream (fire l (Response (ChunkError e)))) = written (readStream l)
   \<and> (\<forall>evs. requests (run (fire l (Response (ChunkError e))) evs) = requests l
           \<and> lerr (run (fire l (Response (ChunkError e))) evs) = Some e
           \<and> ended (readStream (run (fire l (Response (ChunkError e))) evs))
           \<and> ended (passThrough (run (fire l (Response (ChunkError e))) evs))
           \<and> state (run (fire l (Response (ChunkError e))) evs) \<noteq> FSM_STARTING
           \<and> (StreamEnd \<notin> set evs \<and> StreamError \<notin> set evs \<longrightarrow>
                transitions (run (fire l (Response (ChunkError e))) evs)
                  = transitions l @ [FSM_ERROR]))"
proof
  assume o: "outstanding l"
  define l' where "l' = fire l (Response (ChunkError e))"
  have f: "ended (readStream l')" "ended (passThrough l')" "state l' = FSM_ERROR"
    "lerr l' = Some e" "transitions l' = transitions l @ [FSM_ERROR]"
    "requests l' = requests l" "written (readStream l') = written (readStream l)"
    "\<not> outstanding l'"
    using o by (simp_all add: l'_def callback_error mbpt_done_def)
  have q: "quiet l'" using f by (simp add: quiet_def)
  have "requests (run l' evs) = requests l \<and> lerr (run l' evs) = Some e
      \<and> ended (readStream (run l' evs)) \<and> ended (passThrough (run l' evs))
      \<and> state (run l' evs) \<noteq> FSM_STARTING
      \<and> (StreamEnd \<notin> set evs \<and> StreamError \<notin> set evs \<longrightarrow>
            transitions (run l' evs) = transitions l @ [FSM_ERROR])" for evs
    using quiet_run [OF q, of evs] quiet_run_chunks [OF q, of evs] f by simp
  with f show "ended (readStream (fire l (Response (ChunkError e))))
   \<and> ended (passThrough (fire l (Response (ChunkError e))))
   \<and> state (fire l (Response (ChunkError e))) = FSM_ERROR
   \<and> lerr (fire l (Response (ChunkError e))) = Some e
   \<and> transitions (fire l (Response (ChunkError e))) = transitions l @ [FSM_ERROR]
   \<and> requests (fire l (Response (ChunkError e))) = requests l
   \<and> written (readStream (fire l (Response (ChunkError e)))) = written (readStream l)
   \<and> (\<forall>evs. requests (run (fire l (Response (ChunkError e))) evs) = requests l
           \<and> lerr (run (fire l (Response (ChunkError e))) evs) = Some e
           \<and> ended (readStream (run (fire l (Response (ChunkError e))) evs))
           \<and> ended (passThrough (run (fire l (Response (ChunkError e))) evs))
           \<and> state (run (fire l (Response (ChunkError e))) evs) \<noteq> FSM_STARTING
           \<and> (StreamEnd \<notin> set evs \<and> StreamError \<notin> set evs \<longrightarrow>
                transitions (run (fire l (Response (ChunkError e))) evs)
                  = transitions l @ [FSM_ERROR]))"
    unfolding l'_def by blast
qed

lemma chunk_error_callback_example:
  "outstanding (fire loader0 ManagerTick)
   \<and> state (run loader0 [ManagerTick, Response (ChunkError slowDown)]) = FSM_ERROR
   \<and> transitions (run loader0 [ManagerTick, Response (ChunkError slowDown)]) = [FSM_ERROR]
   \<and> map Range (requests (run loader0 [ManagerTick, Response (ChunkError slowDown), ManagerTick,
        Response (ChunkData plainNoRange), ManagerTick])) = [Some ''bytes=0-3999999'']
   \<and> transitions (run loader0 [ManagerTick, Response (ChunkError slowDown), ManagerTick,
        Response (ChunkData plainNoRange), ManagerTick]) = [FSM_ERROR]"
proof -
  define l1 where "l1 = fire loader0 ManagerTick"
  define l2 where "l2 = fire l1 (Response (ChunkError slowDown))"
  have o: "outstanding l1"
    by (simp add: l1_def loader0_def tick_starting)
  have r: "map Range (requests l1) = [Some ''bytes=0-3999999'']"
    and t: "transitions l1 = []"
    by (simp_all add: l1_def loader0_def tick_starting nextRange_def rangeHeader_def ChunkSize_def
        show_int_def show_nat.simps digitChar_eval)
  from o chunk_error_callback [of l1 slowDown]
  have a: "state l2 = FSM_ERROR" "transitions l2 = transitions l1 @ [FSM_ERROR]"
    and b: "requests (run l2 evs) = requests l1" for evs
    unfolding l2_def by blast+
  from o chunk_error_callback [of l1 slowDown]
  have b2: "StreamEnd \<notin> set evs \<and> StreamError \<notin> set evs \<longrightarrow>
        transitions (run l2 evs) = transitions l1 @ [FSM_ERROR]" for evs
    unfolding l2_def by blast
  have ns: "StreamEnd \<notin> set [ManagerTick, Response (ChunkData plainNoRange), ManagerTick]
      \<and> StreamError \<notin> set [ManagerTick, Response (ChunkData plainNoRange), ManagerTick]"
    by simp
  have d2: "transitions (run l2 [ManagerTick, Response (ChunkData plainNoRange), ManagerTick])
      = [FSM_ERROR]"
    using b2 [of "[ManagerTick, Response (ChunkData plainNoRange), ManagerTick]"] ns
    by (simp only: t append_Nil simp_thms)
  have e1: "run loader0 [ManagerTick, Response (ChunkError slowDown)] = l2"
    by (simp only: run_Cons run_Nil l1_def l2_def)
  have e2: "run loader0 [ManagerTick, Response (ChunkError slowDown), ManagerTick,
        Response (ChunkData plainNoRange), ManagerTick]
      = run l2 [ManagerTick, Response (ChunkData plainNoRange), ManagerTick]"
    by (simp only: run_Cons l1_def l2_def)
  have c: "map Range (requests (run l2 evs)) = [Some ''bytes=0-3999999'']" for evs
    by (simp only: b r)
  have d: "transitions l2 = [FSM_ERROR]"
    by (simp only: a t append_Nil)
  show ?thesis
    unfolding e1 e2 l1_def [symmetric] using o a(1) d c d2 by blast
qed

text \<open>
  Claim C6. An error of a chunk fetch is not terminal once a pipe is connected, that is on
  every chunk but the first. The error branch closes the write-side stream with the same
  \<open>_done()\<close> whose \<open>end\<close> event completes a successful fetch, and the handlers
  registered with the pipe are still in place. After a first chunk of a plain object and an
  error on the second, the loader is in \<open>FSM_ERROR\<close>; the \<open>end\<close> event of the
  write-side stream then moves it on to \<open>FSM_DONE\<close>. After a first chunk of a gzip
  object and an error on the second, an \<open>error\<close> event of the gunzip stage, which has
  received a truncated stream, moves the loader to \<open>FSM_ERROR\<close> a second time. In both
  runs the error stays recorded and no further request is issued.
\<close>

theorem chunk_error_not_terminal:
  "pipes (run loader0 [ManagerTick, Response (ChunkData chunkA),
                       ManagerTick, Response (ChunkError slowDown)]) = [Direct]
   \<and> ended (readStream (run loader0 [ManagerTick, Response (ChunkData chunkA),
                                      ManagerTick, Response (ChunkError slowDown)]))
   \<and> state (run loader0 [ManagerTick, Response (ChunkData chunkA),
                          ManagerTick, Response (ChunkError slowDown)]) = FSM_ERROR
   \<and> transitions (run loader0 [ManagerTick, Response (ChunkData chunkA),
                                ManagerTick, Response (ChunkError slowDown)])
       = [FSM_STARTING, FSM_ERROR]
   \<and> state (run loader0 [ManagerTick, Response (ChunkData chunkA),
                          ManagerTick, Response (ChunkError slowDown), StreamEnd]) = FSM_DONE
   \<and> transitions (run loader0 [ManagerTick, Response (ChunkData chunkA),
                                ManagerTick, Response (ChunkError slowDown), StreamEnd])
       = [FSM_STARTING, FSM_ERROR, FSM_DONE]
   \<and> lerr (run loader0 [ManagerTick, Response (ChunkData chunkA),
                         ManagerTick, Response (ChunkError slowDown), StreamEnd]) = Some slowDown
   \<and> pipes (run loader0 [ManagerTick, Response (ChunkData chunkAGzip),
                          ManagerTick, Response (ChunkError slowDown)]) = [ViaGunzip]
   \<and> transitions (run loader0 [ManagerTick, Response (ChunkData chunkAGzip),
                                ManagerTick, Response (ChunkError slowDown), StreamError])
       = [FSM_STARTING, FSM_ERROR, FSM_ERROR]
   \<and> map Range (requests (run loader0 [ManagerTick, Response (ChunkData chunkA), ManagerTick,
                                        Response (ChunkError slowDown), StreamEnd, ManagerTick]))
       = [Some ''bytes=0-3999999'', Some ''bytes=4000000-7999999'']"
  by (simp add: loader0_def chunkA_def chunkAGzip_def chunkData_def tick_starting
      tick_not_starting callback_data callback_error absorb_range absorb_pipes isGzip_def
      re_exec_examples Number_examples on_end_def on_error_def mbpt_new_def mbpt_done_def
      mbpt_write_def nextRange_def rangeHeader_def ChunkSize_def show_int_def show_nat.simps
      digitChar_eval)

end
